theory Spec2Isabelle
  imports Complex_Main "HOL-Library.AList"
begin

section \<open>Conventions of the embedding\<close>

text \<open>
  The Go sources are embedded function by function.

  \<^item> A \<^verbatim>\<open>float64\<close> is a \<^typ>\<open>real\<close>: arithmetic is exact, there is no rounding, no
    infinity and no NaN. Where a result depends on a quotient of the Go code, the
    theorems carry the hypotheses under which its divisor is non-zero, so that the exact
    quotient is what is meant.
  \<^item> A \<^verbatim>\<open>time.Time\<close> is an \<^typ>\<open>int\<close>, the nanoseconds elapsed since Go's zero time, so
    the zero value of a \<^verbatim>\<open>time.Time\<close> field is \<open>0\<close>. A \<^verbatim>\<open>time.Duration\<close> is an
    \<^typ>\<open>int\<close> of nanoseconds.
  \<^item> Every call of \<^verbatim>\<open>time.Now()\<close> or \<^verbatim>\<open>time.Since\<close> reads the clock; each reading is
    an explicit argument of the function that makes the call, in program order.
  \<^item> A mutex-protected struct is a record that the operations take and return; the
    locks themselves are not modelled.
  \<^item> A Go map is an association list used through \<^const>\<open>map_of\<close>,
    \<^const>\<open>AList.update\<close> and \<^const>\<open>AList.delete\<close>; a buffered channel is a bounded queue.
\<close>

type_synonym time = int
type_synonym duration = int

definition maxDuration :: duration where
  "maxDuration = 2 ^ 63 - 1"

definition minDuration :: duration where
  "minDuration = - (2 ^ 63)"

text \<open>\<^verbatim>\<open>t.Sub(u)\<close>: the difference, saturated at the largest and smallest duration.\<close>

definition time_Sub :: "time \<Rightarrow> time \<Rightarrow> duration" where
  "time_Sub t u = max minDuration (min maxDuration (t - u))"

text \<open>\<^verbatim>\<open>time.Since(u)\<close> with the clock reading \<open>now\<close>.\<close>

definition time_Since :: "time \<Rightarrow> time \<Rightarrow> duration" where
  "time_Since now u = time_Sub now u"

text \<open>\<^verbatim>\<open>d.Seconds()\<close> and \<^verbatim>\<open>d.Minutes()\<close>.\<close>

definition Seconds :: "duration \<Rightarrow> real" where
  "Seconds d = real_of_int d / 1000000000"

definition Minutes :: "duration \<Rightarrow> real" where
  "Minutes d = real_of_int d / 60000000000"

text \<open>Multiplication of two \<^verbatim>\<open>int64\<close> values wraps around.\<close>

definition wrap64 :: "int \<Rightarrow> int" where
  "wrap64 x = (x + 2 ^ 63) mod 2 ^ 64 - 2 ^ 63"

subsection \<open>Buffered channels\<close>

record 'a chan =
  buf :: "'a list"
  cap :: nat

definition make_chan :: "nat \<Rightarrow> 'a chan" where
  "make_chan n = \<lparr>buf = [], cap = n\<rparr>"

text \<open>
  \<^verbatim>\<open>select { case ch <- x: ... default: ... }\<close> with no receiver waiting: the send
  succeeds iff the buffer has room.
\<close>

definition chan_try_send :: "'a chan \<Rightarrow> 'a \<Rightarrow> 'a chan option" where
  "chan_try_send ch x =
     (if length (buf ch) < cap ch then Some (ch\<lparr>buf := buf ch @ [x]\<rparr>) else None)"

text \<open>\<^verbatim>\<open>select { case <-ch: ... default: ... }\<close>: takes the oldest element, if any.\<close>

definition chan_try_recv :: "'a chan \<Rightarrow> ('a \<times> 'a chan) option" where
  "chan_try_recv ch =
     (case buf ch of [] \<Rightarrow> None | x # xs \<Rightarrow> Some (x, ch\<lparr>buf := xs\<rparr>))"

text \<open>
  The plain send \<^verbatim>\<open>ch <- x\<close>. With no receiver running it returns iff the buffer has
  room; \<open>None\<close> stands for a send that blocks.
\<close>

definition chan_send :: "'a chan \<Rightarrow> 'a \<Rightarrow> 'a chan option" where
  "chan_send ch x = chan_try_send ch x"

text \<open>
  A well-formed channel holds at most as many elements as its capacity, which is
  positive (the manager's channels are made with capacities 100 and 10).
\<close>

definition chan_wf :: "'a chan \<Rightarrow> bool" where
  "chan_wf ch \<longleftrightarrow> length (buf ch) \<le> cap ch \<and> 0 < cap ch"

section \<open>Risk manager (internal/risk/manager.go)\<close>

record RiskConfig =
  MaxPositionPerMarket :: real
  MaxGlobalExposure :: real
  MaxMarketsActive :: int
  KillSwitchDropPct :: real
  KillSwitchWindowSec :: int
  MaxDailyLoss :: real
  CooldownAfterKill :: duration

record PositionReport =
  MarketID :: string
  rep_YesQty :: real
  rep_NoQty :: real
  MidPrice :: real
  ExposureUSD :: real
  rep_UnrealizedPnL :: real
  rep_RealizedPnL :: real
  Timestamp :: time

text \<open>
  The reason of a kill signal is a string in the source. Three reasons are literals; the
  fourth is built by \<^verbatim>\<open>fmt.Sprintf("rapid price movement: %.1f%% in %ds", ...)\<close> and is
  kept here as its two arguments.
\<close>

datatype KillReason =
  ReasonText string
  | RapidPriceMovement real int

record KillSignal =
  sig_MarketID :: string
  Reason :: KillReason

record priceAnchor =
  price :: real
  timestamp :: time

record Manager =
  cfg :: RiskConfig
  positions :: "(string \<times> PositionReport) list"
  totalExposure :: real
  totalRealizedPnL :: real
  killSwitchActive :: bool
  killSwitchUntil :: time
  priceAnchors :: "(string \<times> priceAnchor) list"
  reportCh :: "PositionReport chan"
  killCh :: "KillSignal chan"

definition NewManager :: "RiskConfig \<Rightarrow> Manager" where
  "NewManager c =
     \<lparr>cfg = c, positions = [], totalExposure = 0, totalRealizedPnL = 0,
      killSwitchActive = False, killSwitchUntil = 0, priceAnchors = [],
      reportCh = make_chan 100, killCh = make_chan 10\<rparr>"

text \<open>
  The states a manager can be in: a Go map holds one entry per key, and the kill channel
  is well-formed.
\<close>

definition Manager_wf :: "Manager \<Rightarrow> bool" where
  "Manager_wf rm \<longleftrightarrow>
     distinct (map fst (positions rm)) \<and> distinct (map fst (priceAnchors rm)) \<and>
     chan_wf (killCh rm)"

definition RemoveMarket :: "Manager \<Rightarrow> string \<Rightarrow> Manager" where
  "RemoveMarket rm marketID =
     rm\<lparr>positions := AList.delete marketID (positions rm),
        priceAnchors := AList.delete marketID (priceAnchors rm)\<rparr>"

definition RemainingBudget :: "Manager \<Rightarrow> string \<Rightarrow> real" where
  "RemainingBudget rm marketID =
     (let currentExposure =
            (case map_of (positions rm) marketID of
               Some pos \<Rightarrow> ExposureUSD pos
             | None \<Rightarrow> 0);
          perMarket = MaxPositionPerMarket (cfg rm) - currentExposure;
          global = MaxGlobalExposure (cfg rm) - totalExposure rm;
          remaining = (if global < perMarket then global else perMarket)
      in if remaining < 0 then 0 else remaining)"

text \<open>
  \<open>emitKill\<close>: \<open>now\<close> is the reading of \<^verbatim>\<open>time.Now()\<close>. The result is \<open>None\<close> when the
  final plain send would block.
\<close>

definition emitKill :: "time \<Rightarrow> Manager \<Rightarrow> string \<Rightarrow> KillReason \<Rightarrow> Manager option" where
  "emitKill now rm marketID reason =
     (let rm1 = rm\<lparr>killSwitchActive := True,
                    killSwitchUntil := now + CooldownAfterKill (cfg rm)\<rparr>;
          sig = \<lparr>sig_MarketID = marketID, Reason = reason\<rparr>
      in case chan_try_send (killCh rm1) sig of
           Some ch \<Rightarrow> Some (rm1\<lparr>killCh := ch\<rparr>)
         | None \<Rightarrow>
             (let ch1 = (case chan_try_recv (killCh rm1) of
                           Some (stale, ch') \<Rightarrow> ch'
                         | None \<Rightarrow> killCh rm1)
              in case chan_send ch1 sig of
                   Some ch2 \<Rightarrow> Some (rm1\<lparr>killCh := ch2\<rparr>)
                 | None \<Rightarrow> None))"

definition checkPriceMovement :: "time \<Rightarrow> Manager \<Rightarrow> PositionReport \<Rightarrow> Manager option" where
  "checkPriceMovement now rm report =
     (let window = wrap64 (KillSwitchWindowSec (cfg rm) * 1000000000);
          reset = rm\<lparr>priceAnchors :=
                    AList.update (MarketID report)
                      \<lparr>price = MidPrice report, timestamp = Timestamp report\<rparr>
                      (priceAnchors rm)\<rparr>
      in case map_of (priceAnchors rm) (MarketID report) of
           None \<Rightarrow> Some reset
         | Some anchor \<Rightarrow>
             if time_Sub (Timestamp report) (timestamp anchor) > window then Some reset
             else if price anchor = 0 then Some rm
             else
               (let pctChange0 = (MidPrice report - price anchor) / price anchor;
                    pctChange = (if pctChange0 < 0 then - pctChange0 else pctChange0)
                in if pctChange > KillSwitchDropPct (cfg rm)
                   then emitKill now rm (MarketID report)
                          (RapidPriceMovement (pctChange * 100) (KillSwitchWindowSec (cfg rm)))
                   else Some rm))"

text \<open>The three sums of the loop over \<^verbatim>\<open>rm.positions\<close>.\<close>

definition sumExposure :: "(string \<times> PositionReport) list \<Rightarrow> real" where
  "sumExposure ps = sum_list (map (\<lambda>kv. ExposureUSD (snd kv)) ps)"

definition sumRealized :: "(string \<times> PositionReport) list \<Rightarrow> real" where
  "sumRealized ps = sum_list (map (\<lambda>kv. rep_RealizedPnL (snd kv)) ps)"

definition sumUnrealized :: "(string \<times> PositionReport) list \<Rightarrow> real" where
  "sumUnrealized ps = sum_list (map (\<lambda>kv. rep_UnrealizedPnL (snd kv)) ps)"

text \<open>
  \<open>processReport\<close>: \<open>now1\<close> to \<open>now4\<close> are the clock readings of its four possible
  \<open>emitKill\<close> calls, in program order.
\<close>

definition processReport ::
  "time \<Rightarrow> time \<Rightarrow> time \<Rightarrow> time \<Rightarrow> Manager \<Rightarrow> PositionReport \<Rightarrow> Manager option" where
  "processReport now1 now2 now3 now4 rm report =
     (let ps = AList.update (MarketID report) report (positions rm);
          rm1 = rm\<lparr>positions := ps, totalExposure := sumExposure ps,
                    totalRealizedPnL := sumRealized ps\<rparr>;
          totalUnrealizedPnL = sumUnrealized ps
      in case (if ExposureUSD report > MaxPositionPerMarket (cfg rm1)
               then emitKill now1 rm1 (MarketID report)
                      (ReasonText ''per-market position limit breached'')
               else Some rm1) of
           None \<Rightarrow> None
         | Some rm2 \<Rightarrow>
            (case (if totalExposure rm2 > MaxGlobalExposure (cfg rm2)
                   then emitKill now2 rm2 [] (ReasonText ''global exposure limit breached'')
                   else Some rm2) of
               None \<Rightarrow> None
             | Some rm3 \<Rightarrow>
                (case (if totalRealizedPnL rm3 + totalUnrealizedPnL < - MaxDailyLoss (cfg rm3)
                       then emitKill now3 rm3 [] (ReasonText ''max daily loss breached'')
                       else Some rm3) of
                   None \<Rightarrow> None
                 | Some rm4 \<Rightarrow> checkPriceMovement now4 rm4 report)))"


text \<open>The configuration and the reports of the package's tests.\<close>

definition testRiskConfig :: RiskConfig where
  "testRiskConfig =
     \<lparr>MaxPositionPerMarket = 100, MaxGlobalExposure = 500, MaxMarketsActive = 5,
      KillSwitchDropPct = 0.10, KillSwitchWindowSec = 60, MaxDailyLoss = 50,
      CooldownAfterKill = 300000000000\<rparr>"

definition exposureReport :: "string \<Rightarrow> real \<Rightarrow> real \<Rightarrow> time \<Rightarrow> PositionReport" where
  "exposureReport m e realized now =
     \<lparr>MarketID = m, rep_YesQty = 0, rep_NoQty = 0, MidPrice = 0.50, ExposureUSD = e,
      rep_UnrealizedPnL = 0, rep_RealizedPnL = realized, Timestamp = now\<rparr>"

text \<open>Reports processed one after the other, as the \<^verbatim>\<open>Run\<close> loop does.\<close>

fun processReports :: "time \<Rightarrow> Manager \<Rightarrow> PositionReport list \<Rightarrow> Manager option" where
  "processReports now rm [] = Some rm"
| "processReports now rm (r # rs) =
     (case processReport now now now now rm r of
        None \<Rightarrow> None
      | Some rm' \<Rightarrow> processReports now rm' rs)"

definition fiveOthers :: "time \<Rightarrow> PositionReport list" where
  "fiveOthers now = map (\<lambda>m. exposureReport m 95 0 now)
     [''other-A'', ''other-B'', ''other-C'', ''other-D'', ''other-E'']"

text \<open>A manager whose kill channel is full of stale signals.\<close>

definition staleSignal :: KillSignal where
  "staleSignal =
     \<lparr>sig_MarketID = ''m0'', Reason = ReasonText ''per-market position limit breached''\<rparr>"

definition fullKillManager :: Manager where
  "fullKillManager =
     (NewManager testRiskConfig)\<lparr>killCh :=
        \<lparr>buf = [staleSignal, staleSignal, staleSignal, staleSignal, staleSignal,
                 staleSignal, staleSignal, staleSignal, staleSignal, staleSignal],
         cap = 10\<rparr>\<rparr>"

text \<open>A manager whose anchor for market \<open>m1\<close> has price 0.\<close>

definition zeroAnchorManager :: Manager where
  "zeroAnchorManager =
     (NewManager testRiskConfig)\<lparr>priceAnchors := [(''m1'', \<lparr>price = 0, timestamp = 0\<rparr>)]\<rparr>"

text \<open>The manager after the reports of markets \<open>m1\<close> (exposure 60) and \<open>m2\<close> (70).\<close>

definition twoMarkets :: "Manager option" where
  "twoMarkets = processReports 0 (NewManager testRiskConfig)
     [exposureReport ''m1'' 60 5 0, exposureReport ''m2'' 70 3 0]"

text \<open>
  The manager after the five reports of the other markets and the stop of the first of
  them: the engine calls \<open>RemoveMarket\<close> whenever it stops a market.
\<close>

definition staleTotalManager :: "Manager option" where
  "staleTotalManager =
     map_option (\<lambda>rm. RemoveMarket rm ''other-A'')
       (processReports 0 (NewManager testRiskConfig) (fiveOthers 0))"

section \<open>Order book mirror (internal/market/book.go)\<close>

record PriceLevel =
  lvl_Price :: string
  lvl_Size :: string

record OrderBookSnapshot =
  AssetID :: string
  Bids :: "PriceLevel list"
  Asks :: "PriceLevel list"
  Hash :: string
  snap_Timestamp :: time

record Book =
  book_marketID :: string
  book_yesToken :: string
  book_noToken :: string
  yes :: OrderBookSnapshot
  no :: OrderBookSnapshot
  lastHash :: "(string \<times> string) list"
  updated :: time

definition emptySnapshot :: OrderBookSnapshot where
  "emptySnapshot = \<lparr>AssetID = [], Bids = [], Asks = [], Hash = [], snap_Timestamp = 0\<rparr>"

definition NewBook :: "string \<Rightarrow> string \<Rightarrow> string \<Rightarrow> Book" where
  "NewBook marketID yesToken noToken =
     \<lparr>book_marketID = marketID, book_yesToken = yesToken, book_noToken = noToken,
      yes = emptySnapshot, no = emptySnapshot, lastHash = [], updated = 0\<rparr>"

text \<open>\<open>applySnapshot\<close>: \<open>now1\<close> and \<open>now2\<close> are its two clock readings.\<close>

definition applySnapshot ::
  "time \<Rightarrow> time \<Rightarrow> Book \<Rightarrow> string \<Rightarrow> PriceLevel list \<Rightarrow> PriceLevel list \<Rightarrow> string \<Rightarrow> Book" where
  "applySnapshot now1 now2 b assetID bids asks hash =
     (let snap = \<lparr>AssetID = assetID, Bids = bids, Asks = asks, Hash = hash,
                  snap_Timestamp = now1\<rparr>;
          b1 = (if assetID = book_yesToken b then b\<lparr>yes := snap\<rparr>
                else if assetID = book_noToken b then b\<lparr>no := snap\<rparr>
                else b)
      in b1\<lparr>lastHash := AList.update assetID hash (lastHash b1), updated := now2\<rparr>)"

text \<open>
  \<open>parsePrice\<close> calls \<^verbatim>\<open>strconv.ParseFloat(s, 64)\<close> of the Go library and drops its
  error. The library function is the parameter \<open>pf\<close>: the value it returns for a string.
\<close>

definition parsePrice :: "(string \<Rightarrow> real) \<Rightarrow> string \<Rightarrow> real" where
  "parsePrice pf s = pf s"

definition BestBidAsk :: "(string \<Rightarrow> real) \<Rightarrow> Book \<Rightarrow> (real \<times> real) option" where
  "BestBidAsk pf b =
     (case (Bids (yes b), Asks (yes b)) of
        (bl # _, al # _) \<Rightarrow> Some (parsePrice pf (lvl_Price bl), parsePrice pf (lvl_Price al))
      | _ \<Rightarrow> None)"

definition MidPrice_book :: "(string \<Rightarrow> real) \<Rightarrow> Book \<Rightarrow> real option" where
  "MidPrice_book pf b =
     (case BestBidAsk pf b of
        None \<Rightarrow> None
      | Some (bid, ask) \<Rightarrow>
          if bid = 0 \<and> ask = 0 then None else Some ((bid + ask) / 2))"

text \<open>
  An instance of the parameter for concrete books: the value of an unsigned decimal
  literal \<^verbatim>\<open>digits[.digits]\<close> such as \<^verbatim>\<open>0.50\<close>, which is the number ParseFloat returns
  for it up to rounding, and \<open>0\<close>, the value ParseFloat returns with a syntax error, for
  a string that is not a number. Signs, exponents, hexadecimal literals, infinities and
  NaN are outside this fragment and are not used at any concrete input below.
\<close>

definition digitVal :: "char \<Rightarrow> nat option" where
  "digitVal c =
     (let n = (of_char c :: nat) in if 48 \<le> n \<and> n \<le> 57 then Some (n - 48) else None)"

fun digitsVal :: "string \<Rightarrow> nat \<Rightarrow> nat option" where
  "digitsVal [] acc = Some acc"
| "digitsVal (c # cs) acc =
     (case digitVal c of None \<Rightarrow> None | Some d \<Rightarrow> digitsVal cs (10 * acc + d))"

definition decimalLiteral :: "string \<Rightarrow> real option" where
  "decimalLiteral s =
     (let ip = takeWhile (\<lambda>c. c \<noteq> CHR ''.'') s;
          fp = (case dropWhile (\<lambda>c. c \<noteq> CHR ''.'') s of [] \<Rightarrow> [] | dot # f \<Rightarrow> f)
      in if ip = [] \<and> fp = [] then None
         else (case (digitsVal ip 0, digitsVal fp 0) of
                 (Some i, Some f) \<Rightarrow> Some (real i + real f / 10 ^ length fp)
               | _ \<Rightarrow> None))"

definition ParseFloat_decimal :: "string \<Rightarrow> real" where
  "ParseFloat_decimal s = (case decimalLiteral s of Some v \<Rightarrow> v | None \<Rightarrow> 0)"

text \<open>The books of the package's tests, and one whose best prices are both \<open>0\<close>.\<close>

definition level :: "string \<Rightarrow> PriceLevel" where
  "level p = \<lparr>lvl_Price = p, lvl_Size = ''100''\<rparr>"

definition testBook :: Book where
  "testBook = NewBook ''test-market'' ''yes-token'' ''no-token''"

definition populatedBook :: Book where
  "populatedBook = applySnapshot 1 2 testBook ''yes-token'' [level ''0.50''] [level ''0.60''] ''h1''"

definition zeroBook :: Book where
  "zeroBook = applySnapshot 1 2 testBook ''yes-token'' [level ''0''] [level ''0''] ''h1''"

section \<open>Inventory (internal/strategy, inventory)\<close>

record Position =
  YesQty :: real
  NoQty :: real
  AvgEntryYes :: real
  AvgEntryNo :: real
  RealizedPnL :: real
  UnrealizedPnL :: real
  LastUpdated :: time

text \<open>\<^verbatim>\<open>types.Side\<close> is a string type with the two constants \<open>BUY\<close> and \<open>SELL\<close>.\<close>

type_synonym Side = string

definition BUY :: Side where
  "BUY = ''BUY''"

definition SELL :: Side where
  "SELL = ''SELL''"

record Fill =
  fill_Timestamp :: time
  Side :: Side
  TokenID :: string
  Price :: real
  Size :: real
  TradeID :: string

record Inventory =
  marketID :: string
  yesToken :: string
  noToken :: string
  pos :: Position

definition zeroPosition :: Position where
  "zeroPosition =
     \<lparr>YesQty = 0, NoQty = 0, AvgEntryYes = 0, AvgEntryNo = 0, RealizedPnL = 0,
      UnrealizedPnL = 0, LastUpdated = 0\<rparr>"

definition NewInventory :: "string \<Rightarrow> string \<Rightarrow> string \<Rightarrow> Inventory" where
  "NewInventory m y n = \<lparr>marketID = m, yesToken = y, noToken = n, pos = zeroPosition\<rparr>"

definition applyYesFill :: "Position \<Rightarrow> Fill \<Rightarrow> Position" where
  "applyYesFill p fill =
     (if Side fill = BUY then
        (let totalCost = AvgEntryYes p * YesQty p + Price fill * Size fill;
             p1 = p\<lparr>YesQty := YesQty p + Size fill\<rparr>
         in if YesQty p1 > 0 then p1\<lparr>AvgEntryYes := totalCost / YesQty p1\<rparr> else p1)
      else
        (let p1 = (if YesQty p > 0
                   then (let sellQty = min (Size fill) (YesQty p)
                         in p\<lparr>RealizedPnL :=
                                RealizedPnL p + (Price fill - AvgEntryYes p) * sellQty\<rparr>)
                   else p);
             p2 = p1\<lparr>YesQty := YesQty p1 - Size fill\<rparr>
         in if YesQty p2 \<le> 0 then p2\<lparr>YesQty := 0, AvgEntryYes := 0\<rparr> else p2))"

definition applyNoFill :: "Position \<Rightarrow> Fill \<Rightarrow> Position" where
  "applyNoFill p fill =
     (if Side fill = BUY then
        (let totalCost = AvgEntryNo p * NoQty p + Price fill * Size fill;
             p1 = p\<lparr>NoQty := NoQty p + Size fill\<rparr>
         in if NoQty p1 > 0 then p1\<lparr>AvgEntryNo := totalCost / NoQty p1\<rparr> else p1)
      else
        (let p1 = (if NoQty p > 0
                   then (let sellQty = min (Size fill) (NoQty p)
                         in p\<lparr>RealizedPnL :=
                                RealizedPnL p + (Price fill - AvgEntryNo p) * sellQty\<rparr>)
                   else p);
             p2 = p1\<lparr>NoQty := NoQty p1 - Size fill\<rparr>
         in if NoQty p2 \<le> 0 then p2\<lparr>NoQty := 0, AvgEntryNo := 0\<rparr> else p2))"

text \<open>\<open>OnFill\<close>: \<open>now\<close> is the clock reading stored in \<open>LastUpdated\<close>.\<close>

definition OnFill :: "time \<Rightarrow> Inventory \<Rightarrow> Fill \<Rightarrow> Inventory" where
  "OnFill now iv fill =
     (let p1 = (if TokenID fill = yesToken iv then applyYesFill (pos iv) fill
                else applyNoFill (pos iv) fill)
      in iv\<lparr>pos := p1\<lparr>LastUpdated := now\<rparr>\<rparr>)"

text \<open>A sequence of fills, each with the clock reading of its \<open>OnFill\<close> call.\<close>

fun OnFills :: "Inventory \<Rightarrow> (time \<times> Fill) list \<Rightarrow> Inventory" where
  "OnFills iv [] = iv"
| "OnFills iv ((now, fill) # rest) = OnFills (OnFill now iv fill) rest"

definition Snapshot :: "Inventory \<Rightarrow> Position" where
  "Snapshot iv = pos iv"

definition NetDelta :: "Inventory \<Rightarrow> real" where
  "NetDelta iv =
     (let total = YesQty (pos iv) + NoQty (pos iv)
      in if total = 0 then 0 else (YesQty (pos iv) - NoQty (pos iv)) / total)"

definition TotalExposureUSD :: "Inventory \<Rightarrow> real \<Rightarrow> real" where
  "TotalExposureUSD iv midPrice =
     YesQty (pos iv) * midPrice + NoQty (pos iv) * (1 - midPrice)"

definition UpdateMarkToMarket :: "Inventory \<Rightarrow> real \<Rightarrow> Inventory" where
  "UpdateMarkToMarket iv midPrice =
     (let yesUnreal = YesQty (pos iv) * (midPrice - AvgEntryYes (pos iv));
          noUnreal = NoQty (pos iv) * ((1 - midPrice) - AvgEntryNo (pos iv))
      in iv\<lparr>pos := (pos iv)\<lparr>UnrealizedPnL := yesUnreal + noUnreal\<rparr>\<rparr>)"

definition SetPosition :: "Inventory \<Rightarrow> Position \<Rightarrow> Inventory" where
  "SetPosition iv p = iv\<lparr>pos := p\<rparr>"


text \<open>
  The invariant of a position: no quantity is negative, and a side with quantity zero
  has average entry zero.
\<close>

definition Position_ok :: "Position \<Rightarrow> bool" where
  "Position_ok p \<longleftrightarrow>
     0 \<le> YesQty p \<and> 0 \<le> NoQty p \<and>
     (YesQty p = 0 \<longrightarrow> AvgEntryYes p = 0) \<and> (NoQty p = 0 \<longrightarrow> AvgEntryNo p = 0)"

text \<open>A purchase of 10 YES at 0.50 and their sale at 0.60, as in the package's tests.\<close>

definition buyYes :: Fill where
  "buyYes = \<lparr>fill_Timestamp = 1, Side = BUY, TokenID = ''yes-token'', Price = 0.50, Size = 10,
     TradeID = ''t1''\<rparr>"

definition sellYes :: Fill where
  "sellYes = \<lparr>fill_Timestamp = 2, Side = SELL, TokenID = ''yes-token'', Price = 0.60, Size = 10,
     TradeID = ''t2''\<rparr>"

definition testInventory :: Inventory where
  "testInventory = NewInventory ''test-market'' ''yes-token'' ''no-token''"

section \<open>Flow tracker (internal/strategy, flow tracker)\<close>

record ToxicityMetrics =
  DirectionalImbalance :: real
  FillVelocity :: real
  ToxicityScore :: real
  IsAverse :: bool

record FlowTracker =
  windowDuration :: duration
  fills :: "Fill list"
  toxicityThreshold :: real
  cooldownPeriod :: duration
  maxSpreadMultiple :: real
  lastToxicTime :: time

definition NewFlowTracker :: "duration \<Rightarrow> real \<Rightarrow> duration \<Rightarrow> real \<Rightarrow> FlowTracker" where
  "NewFlowTracker w threshold cooldown maxMult =
     \<lparr>windowDuration = w, fills = [], toxicityThreshold = threshold,
      cooldownPeriod = cooldown, maxSpreadMultiple = maxMult, lastToxicTime = 0\<rparr>"

text \<open>
  The loop of \<open>evictStaleLocked\<close>: the index of the first fill whose timestamp is after
  the cutoff, \<open>None\<close> for the source's \<open>-1\<close>.
\<close>

fun firstValid :: "time \<Rightarrow> Fill list \<Rightarrow> nat option" where
  "firstValid cutoff [] = None"
| "firstValid cutoff (f # fs) =
     (if fill_Timestamp f > cutoff then Some 0
      else map_option Suc (firstValid cutoff fs))"

definition evictStaleLocked :: "time \<Rightarrow> FlowTracker \<Rightarrow> FlowTracker" where
  "evictStaleLocked now ft =
     (if fills ft = [] then ft
      else
        (let cutoff = now - windowDuration ft
         in case firstValid cutoff (fills ft) of
              None \<Rightarrow> ft\<lparr>fills := []\<rparr>
            | Some validIdx \<Rightarrow>
                if validIdx > 0 then ft\<lparr>fills := drop validIdx (fills ft)\<rparr> else ft))"

definition AddFill :: "time \<Rightarrow> FlowTracker \<Rightarrow> Fill \<Rightarrow> FlowTracker" where
  "AddFill now ft fill = evictStaleLocked now (ft\<lparr>fills := fills ft @ [fill]\<rparr>)"

definition zeroMetrics :: ToxicityMetrics where
  "zeroMetrics =
     \<lparr>DirectionalImbalance = 0, FillVelocity = 0, ToxicityScore = 0, IsAverse = False\<rparr>"

text \<open>\<open>CalculateToxicity\<close>: \<open>now\<close> is the clock reading of its eviction.\<close>

definition CalculateToxicity :: "time \<Rightarrow> FlowTracker \<Rightarrow> ToxicityMetrics \<times> FlowTracker" where
  "CalculateToxicity now ft =
     (let ft1 = evictStaleLocked now ft
      in if fills ft1 = [] then (zeroMetrics, ft1)
         else
           (let buyCount = length (filter (\<lambda>f. Side f = BUY) (fills ft1));
                sellCount = length (filter (\<lambda>f. Side f \<noteq> BUY) (fills ft1));
                totalFills = length (fills ft1);
                dominant = max (real buyCount) (real sellCount);
                directionalImbalance = dominant / real totalFills
            in if totalFills < 2 then
                 (\<lparr>DirectionalImbalance = directionalImbalance, FillVelocity = 0,
                   ToxicityScore = directionalImbalance * 0.6,
                   IsAverse = (directionalImbalance > toxicityThreshold ft1)\<rparr>, ft1)
               else
                 (let windowDurationMinutes = Minutes (windowDuration ft1);
                      fillVelocity = real totalFills / windowDurationMinutes;
                      velocityFactor = min (fillVelocity / 3.0) 1.0;
                      toxicityScore = 0.6 * directionalImbalance + 0.4 * velocityFactor
                  in (\<lparr>DirectionalImbalance = directionalImbalance,
                       FillVelocity = fillVelocity, ToxicityScore = toxicityScore,
                       IsAverse = (toxicityScore > toxicityThreshold ft1)\<rparr>, ft1))))"

text \<open>
  \<open>GetSpreadMultiplier\<close>: \<open>now1\<close> is the reading of the eviction inside
  \<open>CalculateToxicity\<close>, \<open>now2\<close> the one stored in \<open>lastToxicTime\<close>, \<open>now3\<close> the one of
  the cooldown test and \<open>now4\<close> the one of the decay.
\<close>

definition GetSpreadMultiplier ::
  "time \<Rightarrow> time \<Rightarrow> time \<Rightarrow> time \<Rightarrow> FlowTracker \<Rightarrow> real \<times> FlowTracker" where
  "GetSpreadMultiplier now1 now2 now3 now4 ft =
     (let (metrics, ft1) = CalculateToxicity now1 ft;
          ft2 = (if IsAverse metrics then ft1\<lparr>lastToxicTime := now2\<rparr> else ft1);
          inCooldown = (time_Since now3 (lastToxicTime ft2) < cooldownPeriod ft2)
      in if \<not> IsAverse metrics \<and> \<not> inCooldown then (1.0, ft2)
         else if ToxicityScore metrics < toxicityThreshold ft2 then
           (let timeSinceToxic = Seconds (time_Since now4 (lastToxicTime ft2));
                cooldownSeconds = Seconds (cooldownPeriod ft2);
                cooldownProgress = min (timeSinceToxic / cooldownSeconds) 1.0
            in (1.0 + (maxSpreadMultiple ft2 - 1.0) * (1.0 - cooldownProgress), ft2))
         else
           (let normalizedScore =
                  (ToxicityScore metrics - toxicityThreshold ft2) / (1.0 - toxicityThreshold ft2)
            in (1.0 + (maxSpreadMultiple ft2 - 1.0) * min (normalizedScore * 2.0) 1.0, ft2)))"

definition IsFlowToxic :: "time \<Rightarrow> FlowTracker \<Rightarrow> bool \<times> FlowTracker" where
  "IsFlowToxic now ft = (let (metrics, ft1) = CalculateToxicity now ft in (IsAverse metrics, ft1))"

definition GetFillCount :: "FlowTracker \<Rightarrow> nat" where
  "GetFillCount ft = length (fills ft)"

text \<open>The tracker of the package's tests: 60 s window, threshold 0.6, 120 s cooldown, 3.0.\<close>

definition testFlowTracker :: FlowTracker where
  "testFlowTracker = NewFlowTracker 60000000000 0.6 120000000000 3.0"

definition testFill :: "time \<Rightarrow> Side \<Rightarrow> Fill" where
  "testFill t s =
     \<lparr>fill_Timestamp = t, Side = s, TokenID = ''token1'', Price = 0.5, Size = 10.0,
      TradeID = ''A''\<rparr>"

text \<open>
  Fills added one after the other, each at the instant of its timestamp; a tracker with
  one BUY fill; a tracker with five BUY fills one second apart, as in the package's
  tests; and that tracker after a call of \<open>GetSpreadMultiplier\<close> one second later.
\<close>

fun AddFills :: "FlowTracker \<Rightarrow> Fill list \<Rightarrow> FlowTracker" where
  "AddFills ft [] = ft"
| "AddFills ft (f # fs) = AddFills (AddFill (fill_Timestamp f) ft f) fs"

definition singleFillTracker :: FlowTracker where
  "singleFillTracker = AddFills testFlowTracker [testFill 1000000000000 BUY]"

definition toxicTracker :: FlowTracker where
  "toxicTracker = AddFills testFlowTracker
     [testFill 1000000000000 BUY, testFill 1001000000000 BUY, testFill 1002000000000 BUY,
      testFill 1003000000000 BUY, testFill 1004000000000 BUY]"

definition cooldownTracker :: FlowTracker where
  "cooldownTracker =
     snd (GetSpreadMultiplier 1005000000000 1005000000000 1005000000000 1005000000000 toxicTracker)"

section \<open>Maker (internal/strategy, maker)\<close>

type_synonym TickSize = string

definition Tick01 :: TickSize where
  "Tick01 = ''0.1''"

definition Tick001 :: TickSize where
  "Tick001 = ''0.01''"

definition Tick0001 :: TickSize where
  "Tick0001 = ''0.001''"

definition Tick00001 :: TickSize where
  "Tick00001 = ''0.0001''"

definition Decimals :: "TickSize \<Rightarrow> int" where
  "Decimals t =
     (if t = Tick01 then 1
      else if t = Tick001 then 2
      else if t = Tick0001 then 3
      else if t = Tick00001 then 4
      else 2)"

text \<open>The fields of \<^verbatim>\<open>types.MarketInfo\<close> that the strategy reads.\<close>

record MarketInfo =
  ConditionID :: string
  Slug :: string
  YesTokenID :: string
  NoTokenID :: string
  TickSize :: TickSize
  MinOrderSize :: real
  NegRisk :: bool

record StrategyConfig =
  Gamma :: real
  Sigma :: real
  cfg_K :: real
  cfg_T :: real
  DefaultSpreadBps :: int
  OrderSizeUSD :: real
  RefreshInterval :: duration
  StaleBookTimeout :: duration
  FlowWindow :: duration
  FlowToxicityThreshold :: real
  FlowCooldownPeriod :: duration
  FlowMaxSpreadMultiplier :: real

type_synonym OrderType = string

definition OrderTypeGTC :: OrderType where
  "OrderTypeGTC = ''GTC''"

record UserOrder =
  ord_TokenID :: string
  ord_Price :: real
  ord_Size :: real
  ord_Side :: Side
  ord_OrderType :: OrderType
  ord_TickSize :: TickSize
  Expiration :: int
  FeeRateBps :: int

record QuotePair =
  qp_MarketID :: string
  qp_YesTokenID :: string
  qp_NoTokenID :: string
  Bid :: "UserOrder option"
  Ask :: "UserOrder option"
  GeneratedAt :: time

text \<open>
  The fields of \<open>Maker\<close> that \<open>computeQuotes\<close> reads or writes; the book, the exchange
  client, the risk manager, the active orders and the logger are not among them.
\<close>

record Maker =
  makerCfg :: StrategyConfig
  marketInfo :: MarketInfo
  inventory :: Inventory
  flowTracker :: FlowTracker

definition NewMaker :: "StrategyConfig \<Rightarrow> MarketInfo \<Rightarrow> Inventory \<Rightarrow> Maker" where
  "NewMaker c info iv =
     \<lparr>makerCfg = c, marketInfo = info, inventory = iv,
      flowTracker = NewFlowTracker (FlowWindow c) (FlowToxicityThreshold c)
                      (FlowCooldownPeriod c) (FlowMaxSpreadMultiplier c)\<rparr>"

definition clamp :: "real \<Rightarrow> real \<Rightarrow> real \<Rightarrow> real" where
  "clamp v lo hi = (if v < lo then lo else if v > hi then hi else v)"

text \<open>\<^verbatim>\<open>math.Pow(10, e)\<close> for an integral exponent \<open>e\<close>.\<close>

definition Pow10 :: "int \<Rightarrow> real" where
  "Pow10 e = 10 powr real_of_int e"

definition roundDownToTick :: "real \<Rightarrow> int \<Rightarrow> real" where
  "roundDownToTick v decimals = (let pow = Pow10 decimals in real_of_int \<lfloor>v * pow\<rfloor> / pow)"

definition roundUpToTick :: "real \<Rightarrow> int \<Rightarrow> real" where
  "roundUpToTick v decimals = (let pow = Pow10 decimals in real_of_int \<lceil>v * pow\<rceil> / pow)"

text \<open>
  \<open>computeQuotes\<close>, steps 1 to 6: the bid and ask prices from the skew \<open>q\<close>, the flow
  multiplier and the mid price.
\<close>

definition quotePrices :: "StrategyConfig \<Rightarrow> int \<Rightarrow> real \<Rightarrow> real \<Rightarrow> real \<Rightarrow> real \<times> real" where
  "quotePrices c tickDec q flowMultiplier mid =
     (let gamma = Gamma c; sigma = Sigma c; k = cfg_K c; T = cfg_T c;
          minSpread = real_of_int (DefaultSpreadBps c) / 10000.0 * flowMultiplier;
          tick = Pow10 (- tickDec);
          reservationPrice = mid - q * gamma * sigma * sigma * T;
          optSpread = (gamma * sigma * sigma * T + (2.0 / gamma) * ln (1 + gamma / k))
                        * flowMultiplier;
          bidRaw0 = reservationPrice - optSpread / 2;
          askRaw0 = reservationPrice + optSpread / 2;
          bidRaw1 = (if askRaw0 - bidRaw0 < minSpread then reservationPrice - minSpread / 2
                     else bidRaw0);
          askRaw1 = (if askRaw0 - bidRaw0 < minSpread then reservationPrice + minSpread / 2
                     else askRaw0);
          bidRaw2 = clamp bidRaw1 tick (1 - tick);
          askRaw = clamp askRaw1 tick (1 - tick);
          bidRaw3 = (if bidRaw2 \<ge> askRaw then askRaw - tick else bidRaw2);
          bidRaw = (if bidRaw3 < tick then tick else bidRaw3);
          bidPrice = roundDownToTick bidRaw tickDec;
          askPrice0 = roundUpToTick askRaw tickDec;
          askPrice = (if bidPrice \<ge> askPrice0 then bidPrice + tick else askPrice0)
      in (bidPrice, askPrice))"

text \<open>\<open>computeQuotes\<close>, step 7 and the budget limit: the bid and ask sizes.\<close>

definition quoteSizes ::
  "StrategyConfig \<Rightarrow> real \<Rightarrow> real \<Rightarrow> real \<Rightarrow> real \<Rightarrow> real \<Rightarrow> real \<Rightarrow> real \<times> real" where
  "quoteSizes c minOrderSize q mid remainingBudget bidPrice askPrice =
     (let absQ = \<bar>q\<bar>;
          sizeFactor = 1.0 - 0.5 * absQ;
          baseSize = OrderSizeUSD c / mid;
          bidSize0 = max (baseSize * sizeFactor) minOrderSize;
          askSize0 = max (baseSize * sizeFactor) minOrderSize;
          maxBidSize = remainingBudget / bidPrice;
          maxAskSize = remainingBudget / askPrice;
          bidSize1 = min bidSize0 maxBidSize;
          askSize1 = min askSize0 maxAskSize;
          totalNotional = bidSize1 * bidPrice + askSize1 * askPrice
      in if totalNotional > remainingBudget \<and> totalNotional > 0 then
           (let scale = remainingBudget / totalNotional
            in (bidSize1 * scale, askSize1 * scale))
         else (bidSize1, askSize1))"

text \<open>
  \<open>computeQuotes\<close>: \<open>now1\<close> to \<open>now4\<close> are the clock readings of \<open>GetSpreadMultiplier\<close>,
  \<open>now5\<close> the one of the \<open>CalculateToxicity\<close> call made for the log line, \<open>now6\<close> the one
  stored in \<open>GeneratedAt\<close>. The error result of the source is always \<open>nil\<close>.
\<close>

definition computeQuotes ::
  "time \<Rightarrow> time \<Rightarrow> time \<Rightarrow> time \<Rightarrow> time \<Rightarrow> time \<Rightarrow> Maker \<Rightarrow> real \<Rightarrow> real \<Rightarrow> QuotePair \<times> Maker" where
  "computeQuotes now1 now2 now3 now4 now5 now6 m mid remainingBudget =
     (let q = NetDelta (inventory m);
          tickDec = Decimals (TickSize (marketInfo m));
          (flowMultiplier, ft1) = GetSpreadMultiplier now1 now2 now3 now4 (flowTracker m);
          (bidPrice, askPrice) = quotePrices (makerCfg m) tickDec q flowMultiplier mid;
          (bidSize, askSize) =
             quoteSizes (makerCfg m) (MinOrderSize (marketInfo m)) q mid remainingBudget
               bidPrice askPrice;
          bid = (if bidSize \<ge> MinOrderSize (marketInfo m) \<and> bidPrice > 0 \<and> bidPrice < 1
                 then Some \<lparr>ord_TokenID = YesTokenID (marketInfo m), ord_Price = bidPrice,
                             ord_Size = bidSize, ord_Side = BUY, ord_OrderType = OrderTypeGTC,
                             ord_TickSize = TickSize (marketInfo m), Expiration = 0,
                             FeeRateBps = 0\<rparr>
                 else None);
          ask = (if askSize \<ge> MinOrderSize (marketInfo m) \<and> askPrice > 0 \<and> askPrice < 1
                 then Some \<lparr>ord_TokenID = YesTokenID (marketInfo m), ord_Price = askPrice,
                             ord_Size = askSize, ord_Side = SELL, ord_OrderType = OrderTypeGTC,
                             ord_TickSize = TickSize (marketInfo m), Expiration = 0,
                             FeeRateBps = 0\<rparr>
                 else None);
          (toxicity, ft2) = CalculateToxicity now5 ft1
      in (\<lparr>qp_MarketID = ConditionID (marketInfo m),
           qp_YesTokenID = YesTokenID (marketInfo m),
           qp_NoTokenID = NoTokenID (marketInfo m),
           Bid = bid, Ask = ask, GeneratedAt = now6\<rparr>,
          m\<lparr>flowTracker := ft2\<rparr>))"

text \<open>The configuration and the market of the package's tests.\<close>

definition testStrategyConfig :: StrategyConfig where
  "testStrategyConfig =
     \<lparr>Gamma = 0.5, Sigma = 0.2, cfg_K = 10.0, cfg_T = 0.5, DefaultSpreadBps = 100,
      OrderSizeUSD = 50, RefreshInterval = 5000000000, StaleBookTimeout = 30000000000,
      FlowWindow = 60000000000, FlowToxicityThreshold = 0.6,
      FlowCooldownPeriod = 120000000000, FlowMaxSpreadMultiplier = 3.0\<rparr>"

definition testMarketInfo :: MarketInfo where
  "testMarketInfo =
     \<lparr>ConditionID = ''cond-1'', Slug = [], YesTokenID = ''yes-token'',
      NoTokenID = ''no-token'', TickSize = Tick001, MinOrderSize = 1.0, NegRisk = False\<rparr>"

definition setupMaker :: "StrategyConfig \<Rightarrow> MarketInfo \<Rightarrow> Maker" where
  "setupMaker c info =
     NewMaker c info (NewInventory (ConditionID info) (YesTokenID info) (NoTokenID info))"

text \<open>
  The bid and ask prices that \<open>computeQuotes\<close> computes in the state \<open>m\<close>: its steps 1
  to 6 at the maker's skew and flow multiplier.
\<close>

definition quotedPrices :: "time \<Rightarrow> time \<Rightarrow> time \<Rightarrow> time \<Rightarrow> Maker \<Rightarrow> real \<Rightarrow> real \<times> real" where
  "quotedPrices now1 now2 now3 now4 m mid =
     quotePrices (makerCfg m) (Decimals (TickSize (marketInfo m))) (NetDelta (inventory m))
       (fst (GetSpreadMultiplier now1 now2 now3 now4 (flowTracker m))) mid"

text \<open>The maker of the package's tests: fresh inventory, fresh flow tracker.\<close>

definition testMaker :: Maker where
  "testMaker = setupMaker testStrategyConfig testMarketInfo"

section \<open>Properties of the risk manager\<close>

lemma emitKill_frame:
  "emitKill now rm m reason = Some rm' \<Longrightarrow>
     positions rm' = positions rm \<and> totalExposure rm' = totalExposure rm \<and>
     totalRealizedPnL rm' = totalRealizedPnL rm \<and> priceAnchors rm' = priceAnchors rm \<and>
     cfg rm' = cfg rm \<and> reportCh rm' = reportCh rm"
  by (auto simp: emitKill_def Let_def split: option.splits)

lemma checkPriceMovement_frame:
  "checkPriceMovement now rm r = Some rm' \<Longrightarrow>
     positions rm' = positions rm \<and> totalExposure rm' = totalExposure rm \<and>
     totalRealizedPnL rm' = totalRealizedPnL rm \<and> cfg rm' = cfg rm \<and> reportCh rm' = reportCh rm"
  by (auto simp: checkPriceMovement_def Let_def split: option.splits if_splits dest: emitKill_frame)

lemma processReport_totals:
  assumes "processReport n1 n2 n3 n4 rm r = Some rm'"
  shows "positions rm' = AList.update (MarketID r) r (positions rm) \<and>
         totalExposure rm' = sumExposure (positions rm') \<and>
         totalRealizedPnL rm' = sumRealized (positions rm')"
  using assms unfolding processReport_def Let_def
  by (auto split: option.splits if_splits dest!: emitKill_frame checkPriceMovement_frame)

lemma sum_list_as_map:
  fixes g :: "'v \<Rightarrow> real"
  assumes "distinct (map fst ps)"
  shows "sum_list (map (\<lambda>kv. g (snd kv)) ps) = (\<Sum>k\<in>fst ` set ps. g (the (map_of ps k)))"
  using assms
proof (induction ps)
  case Nil
  then show ?case by simp
next
  case (Cons kv ps)
  obtain k v where kv: "kv = (k, v)" by (cases kv)
  from Cons.prems kv have notin: "k \<notin> fst ` set ps" and dist: "distinct (map fst ps)"
    by auto
  have same: "(\<Sum>j\<in>fst ` set ps. g (the (map_of ((k, v) # ps) j))) =
              (\<Sum>j\<in>fst ` set ps. g (the (map_of ps j)))"
    using notin by (intro sum.cong) auto
  have "sum_list (map (\<lambda>kv. g (snd kv)) (kv # ps)) = g v + sum_list (map (\<lambda>kv. g (snd kv)) ps)"
    by (simp add: kv)
  also have "\<dots> = g v + (\<Sum>j\<in>fst ` set ps. g (the (map_of ps j)))"
    using Cons.IH dist by simp
  also have "\<dots> = (\<Sum>j\<in>fst ` set (kv # ps). g (the (map_of (kv # ps) j)))"
    using notin same by (simp add: kv)
  finally show ?case .
qed

lemma dom_as_keys: "dom (map_of ps) = fst ` set ps"
  by (simp add: dom_map_of_conv_image_fst)

lemmas risk_eval = exposureReport_def testRiskConfig_def NewManager_def
        processReport_def Let_def sumExposure_def sumRealized_def sumUnrealized_def
        checkPriceMovement_def make_chan_def

text \<open>
  \<open>RemainingBudget\<close> computes the global headroom from the running total of the
  manager, and \<open>processReport\<close> leaves the running total equal to the sum of the
  exposures of the latest reports.
\<close>

lemma RemainingBudget_running_total:
  "RemainingBudget rm m =
     max 0 (min (MaxPositionPerMarket (cfg rm) -
                   (case map_of (positions rm) m of Some p \<Rightarrow> ExposureUSD p | None \<Rightarrow> 0))
                (MaxGlobalExposure (cfg rm) - totalExposure rm))"
  by (simp add: RemainingBudget_def Let_def max_def min_def)

lemma processReport_total_is_sum:
  assumes "Manager_wf rm0" and "processReport now1 now2 now3 now4 rm0 r = Some rm"
  shows "totalExposure rm =
      (\<Sum>k\<in>dom (map_of (positions rm)). ExposureUSD (the (map_of (positions rm) k)))"
proof -
  from assms(2) have p: "positions rm = AList.update (MarketID r) r (positions rm0)"
    and t: "totalExposure rm = sumExposure (positions rm)"
    using processReport_totals by blast+
  from assms(1) have "distinct (map fst (positions rm0))" by (simp add: Manager_wf_def)
  then have "distinct (map fst (positions rm))" by (simp add: p distinct_update)
  then show ?thesis
    unfolding t sumExposure_def dom_as_keys by (rule sum_list_as_map)
qed

lemma RemainingBudget_five_others:
  "map_option (\<lambda>rm5. RemainingBudget rm5 ''m1'')
     (processReports now (NewManager testRiskConfig) (fiveOthers now)) = Some 25"
  by (simp add: fiveOthers_def RemainingBudget_def risk_eval)

text \<open>
  C6. The budget is to be \<open>max 0 (min (max_position_per_market - exposure of the
  market's latest report, 0 if none) (max_global_exposure - total exposure across all
  reported markets))\<close> in every state. The code subtracts its running total, which
  \<open>RemoveMarket\<close> does not recompute. After five markets have reported an exposure of 95
  each and one of them has been removed, four markets are reported with a total of 380,
  the running total is still 475, and a market without a position gets the budget 25
  where the formula gives 100.
\<close>

theorem RemainingBudget_stale_total:
  "\<exists>rm. staleTotalManager = Some rm \<and> Manager_wf rm \<and>
     map_of (positions rm) ''m1'' = None \<and>
     dom (map_of (positions rm)) = {''other-B'', ''other-C'', ''other-D'', ''other-E''} \<and>
     (\<Sum>k\<in>dom (map_of (positions rm)). ExposureUSD (the (map_of (positions rm) k))) = 380 \<and>
     totalExposure rm = 475 \<and>
     RemainingBudget rm ''m1'' = 25 \<and>
     max 0 (min (MaxPositionPerMarket (cfg rm) -
                   (case map_of (positions rm) ''m1'' of Some p \<Rightarrow> ExposureUSD p | None \<Rightarrow> 0))
                (MaxGlobalExposure (cfg rm) -
                   (\<Sum>k\<in>dom (map_of (positions rm)).
                       ExposureUSD (the (map_of (positions rm) k))))) = 100"
proof -
  obtain rm where s: "staleTotalManager = Some rm"
    and ps: "positions rm =
      [(''other-B'', exposureReport ''other-B'' 95 0 0),
       (''other-C'', exposureReport ''other-C'' 95 0 0),
       (''other-D'', exposureReport ''other-D'' 95 0 0),
       (''other-E'', exposureReport ''other-E'' 95 0 0)]"
    and an: "map fst (priceAnchors rm) = [''other-B'', ''other-C'', ''other-D'', ''other-E'']"
    and ch: "killCh rm = make_chan 10"
    and t: "totalExposure rm = 475" and c: "cfg rm = testRiskConfig"
    by (simp add: staleTotalManager_def fiveOthers_def RemoveMarket_def risk_eval)
  have wf: "Manager_wf rm"
    by (simp add: Manager_wf_def chan_wf_def ps an ch make_chan_def)
  have none: "map_of (positions rm) ''m1'' = None" by (simp add: ps)
  have d: "dom (map_of (positions rm)) = {''other-B'', ''other-C'', ''other-D'', ''other-E''}"
    by (auto simp: ps)
  have sm: "(\<Sum>k\<in>dom (map_of (positions rm)). ExposureUSD (the (map_of (positions rm) k))) = 380"
    unfolding d by (simp add: ps exposureReport_def)
  have rb: "RemainingBudget rm ''m1'' = 25"
    by (simp add: RemainingBudget_def Let_def none t c testRiskConfig_def)
  have f: "max 0 (min (MaxPositionPerMarket (cfg rm) -
                   (case map_of (positions rm) ''m1'' of Some p \<Rightarrow> ExposureUSD p | None \<Rightarrow> 0))
                (MaxGlobalExposure (cfg rm) -
                   (\<Sum>k\<in>dom (map_of (positions rm)).
                       ExposureUSD (the (map_of (positions rm) k))))) = 100"
    unfolding sm by (simp add: none c testRiskConfig_def)
  from s wf none d sm t rb f show ?thesis by blast
qed

text \<open>
  C7. For every state of the risk manager whose kill channel is within its (positive)
  capacity, \<open>emitKill\<close> returns without blocking; it sets the kill switch with expiry
  \<open>now + cooldown_after_kill\<close>, appends the new signal when the queue has room, and
  otherwise removes the oldest signal and then appends the new one. The new signal is
  the last of the queue, and nothing else of the state changes.
\<close>

theorem emitKill_latest_value:
  assumes "chan_wf (killCh rm)"
  shows "\<exists>rm'. emitKill now rm m reason = Some rm' \<and>
           rm' = rm\<lparr>killSwitchActive := True,
                     killSwitchUntil := now + CooldownAfterKill (cfg rm),
                     killCh := (killCh rm)\<lparr>buf :=
                        (if length (buf (killCh rm)) < cap (killCh rm) then buf (killCh rm)
                         else tl (buf (killCh rm))) @ [\<lparr>sig_MarketID = m, Reason = reason\<rparr>]\<rparr>\<rparr> \<and>
           last (buf (killCh rm')) = \<lparr>sig_MarketID = m, Reason = reason\<rparr> \<and>
           chan_wf (killCh rm')"
  using assms
  by (cases "buf (killCh rm)")
     (auto simp: emitKill_def chan_wf_def chan_try_send_def chan_try_recv_def chan_send_def Let_def)

theorem emitKill_latest_value_witness:
  "chan_wf (killCh fullKillManager) \<and>
   length (buf (killCh fullKillManager)) = cap (killCh fullKillManager) \<and>
   (\<exists>rm'. emitKill 7 fullKillManager ''m1'' (ReasonText ''global exposure limit breached'') = Some rm' \<and>
      killSwitchActive rm' \<and> killSwitchUntil rm' = 300000000007 \<and>
      buf (killCh rm') =
        [staleSignal, staleSignal, staleSignal, staleSignal, staleSignal,
         staleSignal, staleSignal, staleSignal, staleSignal,
         \<lparr>sig_MarketID = ''m1'', Reason = ReasonText ''global exposure limit breached''\<rparr>])"
proof -
  have wf: "chan_wf (killCh fullKillManager)"
    by (simp add: chan_wf_def fullKillManager_def)
  have full: "length (buf (killCh fullKillManager)) = cap (killCh fullKillManager)"
    by (simp add: fullKillManager_def)
  from emitKill_latest_value [OF wf, of 7 "''m1''" "ReasonText ''global exposure limit breached''"]
  obtain rm' where e: "emitKill 7 fullKillManager ''m1'' (ReasonText ''global exposure limit breached'') = Some rm'"
    and r: "rm' = fullKillManager\<lparr>killSwitchActive := True,
                     killSwitchUntil := 7 + CooldownAfterKill (cfg fullKillManager),
                     killCh := (killCh fullKillManager)\<lparr>buf :=
                        (if length (buf (killCh fullKillManager)) < cap (killCh fullKillManager)
                         then buf (killCh fullKillManager)
                         else tl (buf (killCh fullKillManager))) @
                        [\<lparr>sig_MarketID = ''m1'', Reason = ReasonText ''global exposure limit breached''\<rparr>]\<rparr>\<rparr>"
    by blast
  have "killSwitchActive rm' \<and> killSwitchUntil rm' = 300000000007 \<and>
      buf (killCh rm') =
        [staleSignal, staleSignal, staleSignal, staleSignal, staleSignal,
         staleSignal, staleSignal, staleSignal, staleSignal,
         \<lparr>sig_MarketID = ''m1'', Reason = ReasonText ''global exposure limit breached''\<rparr>]"
    unfolding r by (simp add: fullKillManager_def NewManager_def testRiskConfig_def)
  with wf full e show ?thesis by blast
qed

text \<open>
  C9. \<open>RemoveMarket m\<close> deletes the latest report and the price anchor of \<open>m\<close> and
  changes nothing else: the configuration, the running totals, the kill switch, its
  expiry and the channels are the same, and so are the entries of the other markets.
  The totals are recomputed by the next \<open>processReport\<close>, as the sums over the remaining
  reports and the new one.
\<close>

theorem RemoveMarket_frame:
  "cfg (RemoveMarket rm m) = cfg rm \<and>
   totalExposure (RemoveMarket rm m) = totalExposure rm \<and>
   totalRealizedPnL (RemoveMarket rm m) = totalRealizedPnL rm \<and>
   killSwitchActive (RemoveMarket rm m) = killSwitchActive rm \<and>
   killSwitchUntil (RemoveMarket rm m) = killSwitchUntil rm \<and>
   reportCh (RemoveMarket rm m) = reportCh rm \<and>
   killCh (RemoveMarket rm m) = killCh rm \<and>
   map_of (positions (RemoveMarket rm m)) = (map_of (positions rm))(m := None) \<and>
   map_of (priceAnchors (RemoveMarket rm m)) = (map_of (priceAnchors rm))(m := None) \<and>
   (Manager_wf rm \<and> processReport n1 n2 n3 n4 (RemoveMarket rm m) r = Some rm' \<longrightarrow>
      map_of (positions rm') = ((map_of (positions rm))(m := None))(MarketID r \<mapsto> r) \<and>
      totalExposure rm' =
        (\<Sum>k\<in>dom (map_of (positions rm')). ExposureUSD (the (map_of (positions rm') k))) \<and>
      totalRealizedPnL rm' =
        (\<Sum>k\<in>dom (map_of (positions rm')). rep_RealizedPnL (the (map_of (positions rm') k))))"
proof -
  have frame: "cfg (RemoveMarket rm m) = cfg rm \<and>
   totalExposure (RemoveMarket rm m) = totalExposure rm \<and>
   totalRealizedPnL (RemoveMarket rm m) = totalRealizedPnL rm \<and>
   killSwitchActive (RemoveMarket rm m) = killSwitchActive rm \<and>
   killSwitchUntil (RemoveMarket rm m) = killSwitchUntil rm \<and>
   reportCh (RemoveMarket rm m) = reportCh rm \<and>
   killCh (RemoveMarket rm m) = killCh rm"
    by (simp add: RemoveMarket_def)
  have maps: "map_of (positions (RemoveMarket rm m)) = (map_of (positions rm))(m := None) \<and>
   map_of (priceAnchors (RemoveMarket rm m)) = (map_of (priceAnchors rm))(m := None)"
    by (simp add: RemoveMarket_def delete_conv')
  have later: "map_of (positions rm') = ((map_of (positions rm))(m := None))(MarketID r \<mapsto> r) \<and>
      totalExposure rm' =
        (\<Sum>k\<in>dom (map_of (positions rm')). ExposureUSD (the (map_of (positions rm') k))) \<and>
      totalRealizedPnL rm' =
        (\<Sum>k\<in>dom (map_of (positions rm')). rep_RealizedPnL (the (map_of (positions rm') k)))"
    if a: "Manager_wf rm \<and> processReport n1 n2 n3 n4 (RemoveMarket rm m) r = Some rm'"
  proof -
    from a have p: "positions rm' = AList.update (MarketID r) r (positions (RemoveMarket rm m))"
      and te: "totalExposure rm' = sumExposure (positions rm')"
      and tr: "totalRealizedPnL rm' = sumRealized (positions rm')"
      using processReport_totals by blast+
    from a have "distinct (map fst (positions rm))" by (simp add: Manager_wf_def)
    then have d: "distinct (map fst (positions rm'))"
      by (simp add: p RemoveMarket_def distinct_update distinct_delete)
    have m: "map_of (positions rm') = ((map_of (positions rm))(m := None))(MarketID r \<mapsto> r)"
      by (simp add: p RemoveMarket_def update_conv' delete_conv')
    have e: "totalExposure rm' =
        (\<Sum>k\<in>dom (map_of (positions rm')). ExposureUSD (the (map_of (positions rm') k)))"
      unfolding te sumExposure_def dom_as_keys using d by (rule sum_list_as_map)
    have r: "totalRealizedPnL rm' =
        (\<Sum>k\<in>dom (map_of (positions rm')). rep_RealizedPnL (the (map_of (positions rm') k)))"
      unfolding tr sumRealized_def dom_as_keys using d by (rule sum_list_as_map)
    from m e r show ?thesis by blast
  qed
  from frame maps later show ?thesis by blast
qed

theorem RemoveMarket_frame_witness:
  "\<exists>rm2 rm'. twoMarkets = Some rm2 \<and> Manager_wf rm2 \<and>
     totalExposure rm2 = 130 \<and> totalRealizedPnL rm2 = 8 \<and>
     totalExposure (RemoveMarket rm2 ''m2'') = 130 \<and>
     totalRealizedPnL (RemoveMarket rm2 ''m2'') = 8 \<and>
     sumExposure (positions (RemoveMarket rm2 ''m2'')) = 60 \<and>
     processReport 1 1 1 1 (RemoveMarket rm2 ''m2'') (exposureReport ''m1'' 60 5 1) = Some rm' \<and>
     totalExposure rm' = 60 \<and> totalRealizedPnL rm' = 5"
proof -
  let ?r = "exposureReport ''m1'' 60 5 1"
  obtain rm2 where two: "twoMarkets = Some rm2"
    and ps: "positions rm2 = [(''m1'', exposureReport ''m1'' 60 5 0), (''m2'', exposureReport ''m2'' 70 3 0)]"
    and an: "priceAnchors rm2 = [(''m1'', \<lparr>price = 0.5, timestamp = 0\<rparr>), (''m2'', \<lparr>price = 0.5, timestamp = 0\<rparr>)]"
    and ch: "killCh rm2 = make_chan 10"
    and te: "totalExposure rm2 = 130" and tr: "totalRealizedPnL rm2 = 8"
    and c: "cfg rm2 = testRiskConfig"
    by (simp add: twoMarkets_def risk_eval)
  have wf: "Manager_wf rm2"
    by (simp add: Manager_wf_def chan_wf_def ps an ch make_chan_def)
  obtain rm' where step: "processReport 1 1 1 1 (RemoveMarket rm2 ''m2'') ?r = Some rm'"
    using ps an ch te tr c
    by (simp add: RemoveMarket_def risk_eval time_Sub_def wrap64_def minDuration_def maxDuration_def)
  from RemoveMarket_frame [of rm2 "''m2''" 1 1 1 1 ?r rm'] wf step
  have stale: "totalExposure (RemoveMarket rm2 ''m2'') = totalExposure rm2"
       "totalRealizedPnL (RemoveMarket rm2 ''m2'') = totalRealizedPnL rm2"
    and m: "map_of (positions rm') = ((map_of (positions rm2))(''m2'' := None))(MarketID ?r \<mapsto> ?r)"
    and e: "totalExposure rm' =
        (\<Sum>k\<in>dom (map_of (positions rm')). ExposureUSD (the (map_of (positions rm') k)))"
    and r: "totalRealizedPnL rm' =
        (\<Sum>k\<in>dom (map_of (positions rm')). rep_RealizedPnL (the (map_of (positions rm') k)))"
    by blast+
  have d: "dom (map_of (positions rm')) = {''m1''}"
    unfolding m by (auto simp: ps exposureReport_def)
  have e60: "totalExposure rm' = 60"
    unfolding e d by (simp add: m exposureReport_def)
  have r5: "totalRealizedPnL rm' = 5"
    unfolding r d by (simp add: m exposureReport_def)
  have s60: "sumExposure (positions (RemoveMarket rm2 ''m2'')) = 60"
    by (simp add: RemoveMarket_def ps sumExposure_def exposureReport_def)
  from two wf te tr stale s60 step e60 r5 show ?thesis by auto
qed

text \<open>
  C10. When the market of a report has an anchor that is still within the rapid-move
  window and the price of the anchor is 0, \<open>checkPriceMovement\<close> returns the state as
  it is, whatever the mid price of the report: no kill signal is sent, the anchor stays,
  and the relative change, a quotient by the anchor price, is not computed.
\<close>

theorem checkPriceMovement_zero_anchor:
  assumes "map_of (priceAnchors rm) (MarketID r) = Some a"
      and "\<not> time_Sub (Timestamp r) (timestamp a) > wrap64 (KillSwitchWindowSec (cfg rm) * 1000000000)"
      and "price a = 0"
  shows "checkPriceMovement now rm r = Some rm"
  using assms by (simp add: checkPriceMovement_def Let_def)

theorem checkPriceMovement_zero_anchor_witness:
  "map_of (priceAnchors zeroAnchorManager) (MarketID (exposureReport ''m1'' 50 0 10000000000)) =
     Some \<lparr>price = 0, timestamp = 0\<rparr> \<and>
   \<not> time_Sub (Timestamp (exposureReport ''m1'' 50 0 10000000000)) (timestamp \<lparr>price = 0, timestamp = 0\<rparr>)
       > wrap64 (KillSwitchWindowSec (cfg zeroAnchorManager) * 1000000000) \<and>
   price \<lparr>price = 0, timestamp = 0\<rparr> = 0 \<and>
   checkPriceMovement 10000000001 zeroAnchorManager (exposureReport ''m1'' 50 0 10000000000)
     = Some zeroAnchorManager"
proof -
  let ?r = "exposureReport ''m1'' 50 0 10000000000"
  let ?a = "\<lparr>price = 0, timestamp = 0\<rparr>"
  have h1: "map_of (priceAnchors zeroAnchorManager) (MarketID ?r) = Some ?a"
    by (simp add: zeroAnchorManager_def exposureReport_def)
  have h2: "\<not> time_Sub (Timestamp ?r) (timestamp ?a)
              > wrap64 (KillSwitchWindowSec (cfg zeroAnchorManager) * 1000000000)"
    by (simp add: zeroAnchorManager_def exposureReport_def NewManager_def testRiskConfig_def
        time_Sub_def wrap64_def minDuration_def maxDuration_def)
  have h3: "price ?a = 0" by simp
  from checkPriceMovement_zero_anchor [OF h1 h2 h3, of 10000000001] h1 h2 h3
  show ?thesis by blast
qed

section \<open>Properties of the order book mirror\<close>

lemma pf_050: "ParseFloat_decimal ''0.50'' = 1/2"
  by (simp add: ParseFloat_decimal_def decimalLiteral_def digitVal_def Let_def)

lemma pf_060: "ParseFloat_decimal ''0.60'' = 3/5"
  by (simp add: ParseFloat_decimal_def decimalLiteral_def digitVal_def Let_def)

lemma pf_0: "ParseFloat_decimal ''0'' = 0"
  by (simp add: ParseFloat_decimal_def decimalLiteral_def digitVal_def Let_def)

text \<open>
  C8, as stated, fails: a book whose first bid and first ask both parse to 0 has both
  sides non-empty, and \<open>MidPrice\<close> returns no value.
\<close>

theorem MidPrice_book_zero_counterexample:
  "Bids (yes zeroBook) \<noteq> [] \<and> Asks (yes zeroBook) \<noteq> [] \<and>
   MidPrice_book ParseFloat_decimal zeroBook = None"
  by (simp add: zeroBook_def testBook_def NewBook_def applySnapshot_def Let_def level_def
      MidPrice_book_def BestBidAsk_def parsePrice_def pf_0)

text \<open>
  C8, amended. \<open>MidPrice\<close> returns a value if and only if both sides of the YES book
  are non-empty and the parsed prices of the first bid and the first ask are not both 0;
  the value is then half their sum. When either side is empty it returns no value.
\<close>

theorem MidPrice_book_spec:
  "(MidPrice_book pf b \<noteq> None \<longleftrightarrow>
      Bids (yes b) \<noteq> [] \<and> Asks (yes b) \<noteq> [] \<and>
      \<not> (pf (lvl_Price (hd (Bids (yes b)))) = 0 \<and> pf (lvl_Price (hd (Asks (yes b)))) = 0)) \<and>
   (Bids (yes b) \<noteq> [] \<and> Asks (yes b) \<noteq> [] \<and>
      \<not> (pf (lvl_Price (hd (Bids (yes b)))) = 0 \<and> pf (lvl_Price (hd (Asks (yes b)))) = 0) \<longrightarrow>
      MidPrice_book pf b =
        Some ((pf (lvl_Price (hd (Bids (yes b)))) + pf (lvl_Price (hd (Asks (yes b))))) / 2)) \<and>
   (Bids (yes b) = [] \<or> Asks (yes b) = [] \<longrightarrow> MidPrice_book pf b = None)"
  by (cases "Bids (yes b)"; cases "Asks (yes b)")
     (auto simp add: MidPrice_book_def BestBidAsk_def parsePrice_def simp del: not_None_eq)

theorem MidPrice_book_spec_witness:
  "Bids (yes populatedBook) \<noteq> [] \<and> Asks (yes populatedBook) \<noteq> [] \<and>
   MidPrice_book ParseFloat_decimal populatedBook = Some (11/20) \<and>
   Bids (yes testBook) = [] \<and>
   MidPrice_book ParseFloat_decimal testBook = None"
proof -
  have b: "Bids (yes populatedBook) = [level ''0.50'']"
    and a: "Asks (yes populatedBook) = [level ''0.60'']"
    by (simp_all add: populatedBook_def testBook_def NewBook_def applySnapshot_def Let_def)
  have bne: "Bids (yes populatedBook) \<noteq> []" and ane: "Asks (yes populatedBook) \<noteq> []"
    by (simp_all add: a b)
  have e: "Bids (yes testBook) = []"
    by (simp add: testBook_def NewBook_def emptySnapshot_def)
  have nz: "\<not> (ParseFloat_decimal (lvl_Price (hd (Bids (yes populatedBook)))) = 0 \<and>
               ParseFloat_decimal (lvl_Price (hd (Asks (yes populatedBook)))) = 0)"
    by (simp add: a b level_def pf_050 pf_060)
  from MidPrice_book_spec [of ParseFloat_decimal populatedBook] bne ane nz
  have "MidPrice_book ParseFloat_decimal populatedBook =
        Some ((ParseFloat_decimal (lvl_Price (hd (Bids (yes populatedBook)))) +
               ParseFloat_decimal (lvl_Price (hd (Asks (yes populatedBook))))) / 2)"
    by blast
  then have m: "MidPrice_book ParseFloat_decimal populatedBook = Some (11/20)"
    by (simp add: a b level_def pf_050 pf_060)
  from MidPrice_book_spec [of ParseFloat_decimal testBook] e
  have n: "MidPrice_book ParseFloat_decimal testBook = None" by blast
  from bne ane m e n show ?thesis by simp
qed

section \<open>Properties of the inventory\<close>

lemma applyYesFill_ok:
  "0 \<le> Size f \<Longrightarrow> Position_ok p \<Longrightarrow> Position_ok (applyYesFill p f)"
  by (auto simp: Position_ok_def applyYesFill_def Let_def)

lemma applyNoFill_ok:
  "0 \<le> Size f \<Longrightarrow> Position_ok p \<Longrightarrow> Position_ok (applyNoFill p f)"
  by (auto simp: Position_ok_def applyNoFill_def Let_def)

lemma OnFill_ok:
  "0 \<le> Size f \<Longrightarrow> Position_ok (pos iv) \<Longrightarrow> Position_ok (pos (OnFill now iv f))"
  using applyYesFill_ok [of f "pos iv"] applyNoFill_ok [of f "pos iv"]
  by (simp add: OnFill_def Let_def Position_ok_def)

lemma OnFills_ok:
  "\<forall>tf\<in>set tfs. 0 \<le> Size (snd tf) \<Longrightarrow> Position_ok (pos iv) \<Longrightarrow>
     Position_ok (pos (OnFills iv tfs))"
proof (induction tfs arbitrary: iv)
  case Nil
  then show ?case by simp
next
  case (Cons tf tfs)
  obtain now f where tf: "tf = (now, f)" by (cases tf)
  from Cons.prems have "0 \<le> Size f" by (simp add: tf)
  then have "Position_ok (pos (OnFill now iv f))" using Cons.prems(2) by (rule OnFill_ok)
  moreover from Cons.prems have "\<forall>tf\<in>set tfs. 0 \<le> Size (snd tf)" by simp
  ultimately show ?case using Cons.IH by (simp add: tf)
qed

lemma NewInventory_ok: "Position_ok (pos (NewInventory m y n))"
  by (simp add: NewInventory_def zeroPosition_def Position_ok_def)

lemma sell_yes:
  assumes "Side f \<noteq> BUY" "TokenID f = yesToken iv" "0 < YesQty (pos iv)"
  shows "RealizedPnL (pos (OnFill now iv f)) =
           RealizedPnL (pos iv) + (Price f - AvgEntryYes (pos iv)) * min (Size f) (YesQty (pos iv)) \<and>
         YesQty (pos (OnFill now iv f)) =
           (if YesQty (pos iv) - Size f \<le> 0 then 0 else YesQty (pos iv) - Size f) \<and>
         AvgEntryYes (pos (OnFill now iv f)) =
           (if YesQty (pos iv) - Size f \<le> 0 then 0 else AvgEntryYes (pos iv))"
  using assms by (simp add: OnFill_def applyYesFill_def Let_def)

lemma sell_no:
  assumes "Side f \<noteq> BUY" "TokenID f \<noteq> yesToken iv" "0 < NoQty (pos iv)"
  shows "RealizedPnL (pos (OnFill now iv f)) =
           RealizedPnL (pos iv) + (Price f - AvgEntryNo (pos iv)) * min (Size f) (NoQty (pos iv)) \<and>
         NoQty (pos (OnFill now iv f)) =
           (if NoQty (pos iv) - Size f \<le> 0 then 0 else NoQty (pos iv) - Size f) \<and>
         AvgEntryNo (pos (OnFill now iv f)) =
           (if NoQty (pos iv) - Size f \<le> 0 then 0 else AvgEntryNo (pos iv))"
  using assms by (simp add: OnFill_def applyNoFill_def Let_def)

text \<open>
  C3. After every step of every finite sequence of fills with non-negative sizes applied
  to a fresh inventory, both quantities are non-negative and a side with quantity zero
  has average entry zero. A fill that is not a BUY, against a positive quantity \<open>qty\<close>
  with average entry \<open>avg\<close>, adds \<open>(price - avg) * min size qty\<close> to the realized PnL,
  and leaves the quantity \<open>qty - size\<close>, or 0 with average entry 0 when that is not
  positive. This holds for the YES side and for the NO side.
\<close>

theorem OnFill_invariant:
  assumes "\<forall>tf\<in>set tfs. 0 \<le> Size (snd tf)"
  shows "(\<forall>n\<le>length tfs. Position_ok (pos (OnFills (NewInventory mk yt nt) (take n tfs)))) \<and>
     (Side f \<noteq> BUY \<and> TokenID f = yesToken iv \<and> 0 < YesQty (pos iv) \<longrightarrow>
        RealizedPnL (pos (OnFill now iv f)) =
           RealizedPnL (pos iv) + (Price f - AvgEntryYes (pos iv)) * min (Size f) (YesQty (pos iv)) \<and>
        YesQty (pos (OnFill now iv f)) =
           (if YesQty (pos iv) - Size f \<le> 0 then 0 else YesQty (pos iv) - Size f) \<and>
        AvgEntryYes (pos (OnFill now iv f)) =
           (if YesQty (pos iv) - Size f \<le> 0 then 0 else AvgEntryYes (pos iv))) \<and>
     (Side f \<noteq> BUY \<and> TokenID f \<noteq> yesToken iv \<and> 0 < NoQty (pos iv) \<longrightarrow>
        RealizedPnL (pos (OnFill now iv f)) =
           RealizedPnL (pos iv) + (Price f - AvgEntryNo (pos iv)) * min (Size f) (NoQty (pos iv)) \<and>
        NoQty (pos (OnFill now iv f)) =
           (if NoQty (pos iv) - Size f \<le> 0 then 0 else NoQty (pos iv) - Size f) \<and>
        AvgEntryNo (pos (OnFill now iv f)) =
           (if NoQty (pos iv) - Size f \<le> 0 then 0 else AvgEntryNo (pos iv)))"
proof (intro conjI allI impI)
  fix n
  assume "n \<le> length tfs"
  have "\<forall>tf\<in>set (take n tfs). 0 \<le> Size (snd tf)"
    using assms by (meson in_set_takeD)
  then show "Position_ok (pos (OnFills (NewInventory mk yt nt) (take n tfs)))"
    using NewInventory_ok by (rule OnFills_ok)
next
  assume "Side f \<noteq> BUY \<and> TokenID f = yesToken iv \<and> 0 < YesQty (pos iv)"
  then show "RealizedPnL (pos (OnFill now iv f)) =
           RealizedPnL (pos iv) + (Price f - AvgEntryYes (pos iv)) * min (Size f) (YesQty (pos iv))"
    "YesQty (pos (OnFill now iv f)) =
           (if YesQty (pos iv) - Size f \<le> 0 then 0 else YesQty (pos iv) - Size f)"
    "AvgEntryYes (pos (OnFill now iv f)) =
           (if YesQty (pos iv) - Size f \<le> 0 then 0 else AvgEntryYes (pos iv))"
    using sell_yes [of f iv now] by simp_all
next
  assume "Side f \<noteq> BUY \<and> TokenID f \<noteq> yesToken iv \<and> 0 < NoQty (pos iv)"
  then show "RealizedPnL (pos (OnFill now iv f)) =
           RealizedPnL (pos iv) + (Price f - AvgEntryNo (pos iv)) * min (Size f) (NoQty (pos iv))"
    "NoQty (pos (OnFill now iv f)) =
           (if NoQty (pos iv) - Size f \<le> 0 then 0 else NoQty (pos iv) - Size f)"
    "AvgEntryNo (pos (OnFill now iv f)) =
           (if NoQty (pos iv) - Size f \<le> 0 then 0 else AvgEntryNo (pos iv))"
    using sell_no [of f iv now] by simp_all
qed

theorem OnFill_invariant_witness:
  "0 \<le> Size buyYes \<and> 0 \<le> Size sellYes \<and>
   Side sellYes \<noteq> BUY \<and> TokenID sellYes = yesToken (OnFill 1 testInventory buyYes) \<and>
   YesQty (pos (OnFill 1 testInventory buyYes)) = 10 \<and>
   AvgEntryYes (pos (OnFill 1 testInventory buyYes)) = 1/2 \<and>
   Position_ok (pos (OnFills testInventory [(1::int, buyYes), (2, sellYes)])) \<and>
   YesQty (pos (OnFills testInventory [(1::int, buyYes), (2, sellYes)])) = 0 \<and>
   AvgEntryYes (pos (OnFills testInventory [(1::int, buyYes), (2, sellYes)])) = 0 \<and>
   RealizedPnL (pos (OnFills testInventory [(1::int, buyYes), (2, sellYes)])) = 1"
proof -
  let ?tfs = "[(1::int, buyYes), (2, sellYes)]"
  let ?iv = "OnFill 1 testInventory buyYes"
  have h: "\<forall>tf\<in>set ?tfs. 0 \<le> Size (snd tf)"
    by (simp add: buyYes_def sellYes_def)
  have s: "Side sellYes \<noteq> BUY" by (simp add: sellYes_def BUY_def SELL_def)
  have t: "TokenID sellYes = yesToken ?iv"
    by (simp add: sellYes_def OnFill_def Let_def testInventory_def NewInventory_def)
  have q: "YesQty (pos ?iv) = 10" and a: "AvgEntryYes (pos ?iv) = 1/2"
    and r: "RealizedPnL (pos ?iv) = 0"
    by (simp_all add: buyYes_def OnFill_def Let_def testInventory_def NewInventory_def
        zeroPosition_def applyYesFill_def)
  have two: "OnFills testInventory ?tfs = OnFill 2 ?iv sellYes" by simp
  note inst = OnFill_invariant [OF h, of "''test-market''" "''yes-token''" "''no-token''"
      sellYes ?iv 2]
  from inst have "\<forall>n\<le>length ?tfs.
      Position_ok (pos (OnFills (NewInventory ''test-market'' ''yes-token'' ''no-token'') (take n ?tfs)))"
    by (rule conjunct1)
  then have "length ?tfs \<le> length ?tfs \<longrightarrow>
      Position_ok (pos (OnFills (NewInventory ''test-market'' ''yes-token'' ''no-token'')
        (take (length ?tfs) ?tfs)))"
    by (rule spec)
  then have ok: "Position_ok (pos (OnFills testInventory ?tfs))"
    by (simp add: testInventory_def del: OnFills.simps)
  from inst s t q have
    "RealizedPnL (pos (OnFill 2 ?iv sellYes)) =
       RealizedPnL (pos ?iv) + (Price sellYes - AvgEntryYes (pos ?iv)) * min (Size sellYes) (YesQty (pos ?iv))"
    "YesQty (pos (OnFill 2 ?iv sellYes)) =
           (if YesQty (pos ?iv) - Size sellYes \<le> 0 then 0 else YesQty (pos ?iv) - Size sellYes)"
    "AvgEntryYes (pos (OnFill 2 ?iv sellYes)) =
           (if YesQty (pos ?iv) - Size sellYes \<le> 0 then 0 else AvgEntryYes (pos ?iv))"
    by simp_all
  then have "RealizedPnL (pos (OnFill 2 ?iv sellYes)) = 1"
    "YesQty (pos (OnFill 2 ?iv sellYes)) = 0" "AvgEntryYes (pos (OnFill 2 ?iv sellYes)) = 0"
    unfolding q a r by (simp_all add: sellYes_def)
  moreover have "0 \<le> Size buyYes" "0 \<le> Size sellYes"
    by (simp_all add: buyYes_def sellYes_def)
  ultimately show ?thesis using s t q a ok two by simp
qed

section \<open>Properties of the flow tracker\<close>

lemmas flow_eval = testFlowTracker_def NewFlowTracker_def testFill_def AddFill_def
  evictStaleLocked_def CalculateToxicity_def GetSpreadMultiplier_def Let_def zeroMetrics_def
  time_Since_def time_Sub_def maxDuration_def minDuration_def Seconds_def Minutes_def
  BUY_def SELL_def

lemma singleFillTracker_eval:
  "singleFillTracker = testFlowTracker\<lparr>fills := [testFill 1000000000000 BUY]\<rparr>"
  by (simp add: singleFillTracker_def flow_eval)

lemma evictStaleLocked_config:
  "windowDuration (evictStaleLocked now ft) = windowDuration ft \<and>
   toxicityThreshold (evictStaleLocked now ft) = toxicityThreshold ft \<and>
   cooldownPeriod (evictStaleLocked now ft) = cooldownPeriod ft \<and>
   maxSpreadMultiple (evictStaleLocked now ft) = maxSpreadMultiple ft \<and>
   lastToxicTime (evictStaleLocked now ft) = lastToxicTime ft"
  by (simp add: evictStaleLocked_def Let_def split: option.splits)

lemma CalculateToxicity_snd: "snd (CalculateToxicity now ft) = evictStaleLocked now ft"
  by (simp add: CalculateToxicity_def Let_def)

lemma CalculateToxicity_empty:
  "fills (evictStaleLocked now ft) = [] \<Longrightarrow> fst (CalculateToxicity now ft) = zeroMetrics"
  by (simp add: CalculateToxicity_def Let_def)

lemma interpolate_range:
  fixes M p :: real
  assumes "1 \<le> M" "0 \<le> p" "p \<le> 1"
  shows "1 \<le> 1 + (M - 1) * p \<and> 1 + (M - 1) * p \<le> M"
proof -
  have "0 \<le> (M - 1) * p" using assms by simp
  moreover have "(M - 1) * p \<le> (M - 1) * 1"
    using assms by (intro mult_left_mono) auto
  ultimately show ?thesis by simp
qed

lemma time_Since_nonneg: "u \<le> now \<Longrightarrow> 0 \<le> time_Since now u"
  by (simp add: time_Since_def time_Sub_def maxDuration_def minDuration_def)

lemma GetSpreadMultiplier_unfold:
  "fst (GetSpreadMultiplier now1 now2 now3 now4 ft) =
     (let ms = fst (CalculateToxicity now1 ft);
          lastT = (if IsAverse ms then now2 else lastToxicTime ft)
      in if \<not> IsAverse ms \<and> \<not> time_Since now3 lastT < cooldownPeriod ft then 1
         else if ToxicityScore ms < toxicityThreshold ft then
           1 + (maxSpreadMultiple ft - 1) *
               (1 - min (Seconds (time_Since now4 lastT) / Seconds (cooldownPeriod ft)) 1)
         else 1 + (maxSpreadMultiple ft - 1) *
               min ((ToxicityScore ms - toxicityThreshold ft) / (1 - toxicityThreshold ft) * 2) 1)"
proof -
  obtain ms ft1 where c: "CalculateToxicity now1 ft = (ms, ft1)"
    by (cases "CalculateToxicity now1 ft")
  then have "ft1 = evictStaleLocked now1 ft"
    using CalculateToxicity_snd [of now1 ft] by simp
  then have f: "toxicityThreshold ft1 = toxicityThreshold ft"
    "cooldownPeriod ft1 = cooldownPeriod ft" "maxSpreadMultiple ft1 = maxSpreadMultiple ft"
    "lastToxicTime ft1 = lastToxicTime ft"
    using evictStaleLocked_config [of now1 ft] by simp_all
  show ?thesis
    by (simp add: GetSpreadMultiplier_def c f Let_def)
qed

lemma CalculateToxicity_one_fill:
  assumes "fills (evictStaleLocked now ft) = [f]"
  shows "fst (CalculateToxicity now ft) =
     \<lparr>DirectionalImbalance = 1, FillVelocity = 0, ToxicityScore = 0.6,
      IsAverse = (1 > toxicityThreshold ft)\<rparr>"
  using assms evictStaleLocked_config [of now ft]
  by (cases "Side f = BUY") (simp_all add: CalculateToxicity_def Let_def)

lemma toxicTracker_eval:
  "toxicTracker = testFlowTracker\<lparr>fills :=
     [testFill 1000000000000 BUY, testFill 1001000000000 BUY, testFill 1002000000000 BUY,
      testFill 1003000000000 BUY, testFill 1004000000000 BUY]\<rparr>"
  by (simp add: toxicTracker_def flow_eval)

lemma toxic_first:
  "GetSpreadMultiplier 1005000000000 1005000000000 1005000000000 1005000000000 toxicTracker =
     (3, toxicTracker\<lparr>lastToxicTime := 1005000000000\<rparr>)"
  by (simp add: toxicTracker_eval flow_eval)

lemma cooldownTracker_eval:
  "cooldownTracker = toxicTracker\<lparr>lastToxicTime := 1005000000000\<rparr>"
  by (simp add: cooldownTracker_def toxic_first)

text \<open>
  C4. With exactly one fill in the window the velocity is 0, the imbalance is 1 and the
  score is 0.6; but \<open>IsAverse\<close> is the test \<open>imbalance > threshold\<close>, not
  \<open>score > threshold\<close>. With the threshold 0.6 of the tests and one BUY fill the code
  answers \<open>IsAverse = True\<close> although the score 0.6 is not above the threshold.
\<close>

theorem CalculateToxicity_single_fill:
  "fst (CalculateToxicity 1001000000000 singleFillTracker) =
     \<lparr>DirectionalImbalance = 1, FillVelocity = 0, ToxicityScore = 0.6, IsAverse = True\<rparr> \<and>
   length (fills (snd (CalculateToxicity 1001000000000 singleFillTracker))) = 1 \<and>
   toxicityThreshold singleFillTracker = 0.6 \<and>
   \<not> (ToxicityScore (fst (CalculateToxicity 1001000000000 singleFillTracker))
        > toxicityThreshold singleFillTracker)"
  by (simp add: singleFillTracker_eval flow_eval)

text \<open>
  C5, as stated, fails in its second part: one second after five BUY fills the tracker
  is toxic; 65 seconds later the window is empty, the 120 s cooldown is still running,
  and the multiplier is \<open>23/12\<close>, not 1.
\<close>

theorem GetSpreadMultiplier_empty_window_counterexample:
  "1 \<le> maxSpreadMultiple cooldownTracker \<and>
   0 < toxicityThreshold cooldownTracker \<and> toxicityThreshold cooldownTracker < 1 \<and>
   fills (snd (GetSpreadMultiplier 1070000000000 1070000000000 1070000000000 1070000000000
                 cooldownTracker)) = [] \<and>
   fst (GetSpreadMultiplier 1070000000000 1070000000000 1070000000000 1070000000000
          cooldownTracker) = 23 / 12"
  by (simp add: cooldownTracker_eval toxicTracker_eval flow_eval)

text \<open>
  C5, amended. For every tracker with maximal multiplier \<open>M \<ge> 1\<close>, threshold in
  \<open>(0, 1)\<close>, positive window and cooldown durations, and clock readings that are not
  before the last toxic time, \<open>GetSpreadMultiplier\<close> returns a value in \<open>[1, M]\<close>.
  When the window is empty and the cooldown since the last toxic time is over, it
  returns exactly 1; when the window is empty within the cooldown it returns
  \<open>1 + (M - 1) * (1 - progress)\<close> with \<open>progress = min (elapsed / cooldown) 1\<close>.
\<close>

theorem GetSpreadMultiplier_range:
  assumes M: "1 \<le> maxSpreadMultiple ft"
      and th: "0 < toxicityThreshold ft" "toxicityThreshold ft < 1"
      and W: "0 < windowDuration ft" and C: "0 < cooldownPeriod ft"
      and clock: "lastToxicTime ft \<le> now4" "now2 \<le> now4"
  shows "1 \<le> fst (GetSpreadMultiplier now1 now2 now3 now4 ft) \<and>
         fst (GetSpreadMultiplier now1 now2 now3 now4 ft) \<le> maxSpreadMultiple ft \<and>
         (fills (evictStaleLocked now1 ft) = [] \<and>
          \<not> time_Since now3 (lastToxicTime ft) < cooldownPeriod ft \<longrightarrow>
            fst (GetSpreadMultiplier now1 now2 now3 now4 ft) = 1) \<and>
         (fills (evictStaleLocked now1 ft) = [] \<and>
          time_Since now3 (lastToxicTime ft) < cooldownPeriod ft \<longrightarrow>
            fst (GetSpreadMultiplier now1 now2 now3 now4 ft) =
              1 + (maxSpreadMultiple ft - 1) *
                  (1 - min (Seconds (time_Since now4 (lastToxicTime ft)) /
                            Seconds (cooldownPeriod ft)) 1))"
proof -
  define ms where "ms = fst (CalculateToxicity now1 ft)"
  define lastT where "lastT = (if IsAverse ms then now2 else lastToxicTime ft)"
  define progress where
    "progress = min (Seconds (time_Since now4 lastT) / Seconds (cooldownPeriod ft)) 1"
  define level where
    "level = min ((ToxicityScore ms - toxicityThreshold ft) / (1 - toxicityThreshold ft) * 2) 1"
  have G: "fst (GetSpreadMultiplier now1 now2 now3 now4 ft) =
     (if \<not> IsAverse ms \<and> \<not> time_Since now3 lastT < cooldownPeriod ft then 1
      else if ToxicityScore ms < toxicityThreshold ft
           then 1 + (maxSpreadMultiple ft - 1) * (1 - progress)
           else 1 + (maxSpreadMultiple ft - 1) * level)"
    unfolding GetSpreadMultiplier_unfold ms_def lastT_def progress_def level_def Let_def ..
  have "lastT \<le> now4" using clock by (simp add: lastT_def)
  then have "0 \<le> Seconds (time_Since now4 lastT)"
    using time_Since_nonneg [of lastT now4] by (simp add: Seconds_def)
  moreover have "0 < Seconds (cooldownPeriod ft)" using C by (simp add: Seconds_def)
  ultimately have "0 \<le> Seconds (time_Since now4 lastT) / Seconds (cooldownPeriod ft)"
    by simp
  then have p: "0 \<le> 1 - progress" "1 - progress \<le> 1"
    by (simp_all add: progress_def)
  have decay: "1 \<le> 1 + (maxSpreadMultiple ft - 1) * (1 - progress) \<and>
               1 + (maxSpreadMultiple ft - 1) * (1 - progress) \<le> maxSpreadMultiple ft"
    using M p by (rule interpolate_range)
  have toxic: "1 \<le> 1 + (maxSpreadMultiple ft - 1) * level \<and>
               1 + (maxSpreadMultiple ft - 1) * level \<le> maxSpreadMultiple ft"
    if "\<not> ToxicityScore ms < toxicityThreshold ft"
  proof -
    from that th have "0 \<le> (ToxicityScore ms - toxicityThreshold ft) / (1 - toxicityThreshold ft)"
      by simp
    then have "0 \<le> (ToxicityScore ms - toxicityThreshold ft) / (1 - toxicityThreshold ft) * 2"
      by (rule mult_nonneg_nonneg) simp
    then have "0 \<le> level" "level \<le> 1" unfolding level_def by (rule min.boundedI, simp, simp)
    with M show ?thesis by (rule interpolate_range)
  qed
  have range: "1 \<le> fst (GetSpreadMultiplier now1 now2 now3 now4 ft) \<and>
         fst (GetSpreadMultiplier now1 now2 now3 now4 ft) \<le> maxSpreadMultiple ft"
    unfolding G using M decay toxic by simp
  have empty: "ms = zeroMetrics" if "fills (evictStaleLocked now1 ft) = []"
    using that by (simp add: ms_def CalculateToxicity_empty)
  have e1: "fst (GetSpreadMultiplier now1 now2 now3 now4 ft) = 1"
    if "fills (evictStaleLocked now1 ft) = [] \<and>
        \<not> time_Since now3 (lastToxicTime ft) < cooldownPeriod ft"
    unfolding G using that empty by (simp add: lastT_def zeroMetrics_def)
  have e2: "fst (GetSpreadMultiplier now1 now2 now3 now4 ft) =
              1 + (maxSpreadMultiple ft - 1) *
                  (1 - min (Seconds (time_Since now4 (lastToxicTime ft)) /
                            Seconds (cooldownPeriod ft)) 1)"
    if "fills (evictStaleLocked now1 ft) = [] \<and>
        time_Since now3 (lastToxicTime ft) < cooldownPeriod ft"
    unfolding G progress_def using that empty th by (simp add: lastT_def zeroMetrics_def)
  from range e1 e2 show ?thesis by blast
qed


theorem GetSpreadMultiplier_range_witness:
  "1 \<le> maxSpreadMultiple testFlowTracker \<and>
   0 < toxicityThreshold testFlowTracker \<and> toxicityThreshold testFlowTracker < 1 \<and>
   0 < windowDuration testFlowTracker \<and> 0 < cooldownPeriod testFlowTracker \<and>
   lastToxicTime testFlowTracker \<le> 1000000000000 \<and>
   fills (evictStaleLocked 1000000000000 testFlowTracker) = [] \<and>
   \<not> time_Since 1000000000000 (lastToxicTime testFlowTracker) < cooldownPeriod testFlowTracker \<and>
   fst (GetSpreadMultiplier 1000000000000 1000000000000 1000000000000 1000000000000
          testFlowTracker) = 1 \<and>
   lastToxicTime cooldownTracker \<le> 1070000000000 \<and>
   fills (evictStaleLocked 1070000000000 cooldownTracker) = [] \<and>
   time_Since 1070000000000 (lastToxicTime cooldownTracker) < cooldownPeriod cooldownTracker \<and>
   1 \<le> fst (GetSpreadMultiplier 1070000000000 1070000000000 1070000000000 1070000000000
               cooldownTracker) \<and>
   fst (GetSpreadMultiplier 1070000000000 1070000000000 1070000000000 1070000000000
          cooldownTracker) \<le> 3"
proof -
  let ?t = "1000000000000 :: int"
  let ?u = "1070000000000 :: int"
  have a: "1 \<le> maxSpreadMultiple testFlowTracker"
    "0 < toxicityThreshold testFlowTracker" "toxicityThreshold testFlowTracker < 1"
    "0 < windowDuration testFlowTracker" "0 < cooldownPeriod testFlowTracker"
    "lastToxicTime testFlowTracker \<le> ?t" "?t \<le> ?t"
    by (simp_all add: testFlowTracker_def NewFlowTracker_def)
  have a_empty: "fills (evictStaleLocked ?t testFlowTracker) = []"
    by (simp add: flow_eval)
  have a_out: "\<not> time_Since ?t (lastToxicTime testFlowTracker) < cooldownPeriod testFlowTracker"
    by (simp add: flow_eval)
  from GetSpreadMultiplier_range [OF a, of ?t ?t] a_empty a_out
  have one: "fst (GetSpreadMultiplier ?t ?t ?t ?t testFlowTracker) = 1" by blast
  have b: "1 \<le> maxSpreadMultiple cooldownTracker"
    "0 < toxicityThreshold cooldownTracker" "toxicityThreshold cooldownTracker < 1"
    "0 < windowDuration cooldownTracker" "0 < cooldownPeriod cooldownTracker"
    "lastToxicTime cooldownTracker \<le> ?u" "?u \<le> ?u"
    by (simp_all add: cooldownTracker_eval toxicTracker_eval testFlowTracker_def
        NewFlowTracker_def)
  have b_empty: "fills (evictStaleLocked ?u cooldownTracker) = []"
    by (simp add: cooldownTracker_eval toxicTracker_eval flow_eval)
  have b_in: "time_Since ?u (lastToxicTime cooldownTracker) < cooldownPeriod cooldownTracker"
    by (simp add: cooldownTracker_eval toxicTracker_eval flow_eval)
  have M3: "maxSpreadMultiple cooldownTracker = 3"
    by (simp add: cooldownTracker_eval toxicTracker_eval testFlowTracker_def NewFlowTracker_def)
  from GetSpreadMultiplier_range [OF b, of ?u ?u]
  have range: "1 \<le> fst (GetSpreadMultiplier ?u ?u ?u ?u cooldownTracker)"
    "fst (GetSpreadMultiplier ?u ?u ?u ?u cooldownTracker) \<le> 3"
    unfolding M3 by blast+
  from a a_empty a_out one b(6) b_empty b_in range show ?thesis by simp
qed

section \<open>Properties of the maker\<close>

lemma Decimals_range: "1 \<le> Decimals t \<and> Decimals t \<le> 4"
  by (simp add: Decimals_def)

lemma Pow10_pos: "0 < Pow10 e"
  by (simp add: Pow10_def)

lemma Pow10_int: "0 \<le> d \<Longrightarrow> Pow10 d = real_of_int (10 ^ nat d)"
  by (simp add: Pow10_def powr_real_of_int)

lemma Pow10_neg: "Pow10 (- d) = 1 / Pow10 d"
  by (simp add: Pow10_def powr_minus_divide)

lemma Pow10_ge_10: "1 \<le> d \<Longrightarrow> (10::int) \<le> 10 ^ nat d"
proof -
  assume "1 \<le> d"
  then have "(10::int) ^ 1 \<le> 10 ^ nat d"
    by (intro power_increasing) auto
  then show ?thesis by simp
qed

text \<open>The conditioning of the raw prices (step 5 of computeQuotes).\<close>

lemma raw_conditioning:
  fixes tick bRaw aRaw :: real
  assumes t: "0 < tick" "tick \<le> 1 - tick"
  defines "b2 \<equiv> clamp bRaw tick (1 - tick)"
      and "a \<equiv> clamp aRaw tick (1 - tick)"
  defines "b3 \<equiv> (if b2 \<ge> a then a - tick else b2)"
  defines "b \<equiv> (if b3 < tick then tick else b3)"
  shows "tick \<le> b \<and> b \<le> a \<and> a \<le> 1 - tick \<and> (b = a \<longrightarrow> a = tick)"
proof -
  have a: "tick \<le> a" "a \<le> 1 - tick" using t by (auto simp: a_def clamp_def)
  have b2: "tick \<le> b2" "b2 \<le> 1 - tick" using t by (auto simp: b2_def clamp_def)
  show ?thesis
    using a b2 t by (auto simp: b_def b3_def)
qed

text \<open>Rounding to the tick grid (step 6) and the last repair of the ask.\<close>

lemma rounding_bounds:
  fixes P tick b a :: real and N :: int
  assumes P: "P = real_of_int N" "3 \<le> N" and tick: "tick = 1 / P"
      and raw: "tick \<le> b" "b \<le> a" "a \<le> 1 - tick" "b = a \<longrightarrow> a = tick"
  defines "bp \<equiv> real_of_int \<lfloor>b * P\<rfloor> / P"
      and "ap0 \<equiv> real_of_int \<lceil>a * P\<rceil> / P"
  defines "ap \<equiv> (if bp \<ge> ap0 then bp + tick else ap0)"
  shows "tick \<le> bp \<and> bp < ap \<and> ap \<le> 1 - tick \<and>
         (\<exists>i j :: int. bp = real_of_int i * tick \<and> ap = real_of_int j * tick)"
proof -
  have Ppos: "0 < P" using P by simp
  have tP: "tick * P = 1" using Ppos tick by simp
  have one_le: "1 \<le> b * P"
    using raw(1) Ppos tP by (metis mult_right_mono less_imp_le)
  have le_top: "a * P \<le> real_of_int (N - 1)"
  proof -
    have "a * P \<le> (1 - tick) * P" using raw(3) Ppos by (intro mult_right_mono) auto
    also have "\<dots> = P - 1" using tP by (simp add: algebra_simps)
    finally show ?thesis using P by simp
  qed
  have ba: "b * P \<le> a * P" using raw(2) Ppos by (intro mult_right_mono) auto
  define B where "B = \<lfloor>b * P\<rfloor>"
  define A0 where "A0 = \<lceil>a * P\<rceil>"
  have B1: "1 \<le> B" unfolding B_def le_floor_iff using one_le by simp
  have A0top: "A0 \<le> N - 1" unfolding A0_def ceiling_le_iff by (rule le_top)
  have "real_of_int B \<le> b * P" by (simp add: B_def)
  also have "\<dots> \<le> a * P" by (rule ba)
  also have "\<dots> \<le> real_of_int A0" by (simp add: A0_def)
  finally have BA: "B \<le> A0" by simp
  have bp: "bp = real_of_int B / P" and ap0: "ap0 = real_of_int A0 / P"
    by (simp_all add: bp_def ap0_def B_def A0_def)
  have cmp: "bp \<ge> ap0 \<longleftrightarrow> A0 \<le> B"
    using Ppos by (simp add: bp ap0 divide_le_cancel)
  have grid: "real_of_int k / P = real_of_int k * tick" for k
    by (simp add: tick)
  have low: "tick \<le> bp"
  proof -
    have "1 / P \<le> real_of_int B / P" using B1 Ppos by (intro divide_right_mono) auto
    then show ?thesis by (simp add: bp tick)
  qed
  show ?thesis
  proof (cases "A0 \<le> B")
    case True
    with BA have eq: "B = A0" by simp
    have "real_of_int B \<le> b * P" by (simp add: B_def)
    moreover have "a * P \<le> real_of_int A0" by (simp add: A0_def)
    ultimately have "b * P = a * P" using ba eq by linarith
    then have "b = a" using Ppos by simp
    then have "a = tick" using raw(4) by simp
    then have "b * P = 1" using \<open>b = a\<close> tP by simp
    then have B_one: "B = 1" by (simp add: B_def)
    have ap: "ap = real_of_int (B + 1) / P"
      using True cmp by (simp add: ap_def bp tick add_divide_distrib)
    have "real_of_int (B + 1) / P \<le> real_of_int (N - 1) / P"
      using B_one P(2) Ppos by (intro divide_right_mono) auto
    also have "\<dots> = 1 - tick" using P Ppos by (simp add: tick diff_divide_distrib)
    finally have top: "ap \<le> 1 - tick" by (simp add: ap)
    have "bp < ap" using Ppos by (simp add: ap bp divide_strict_right_mono)
    moreover have "bp = real_of_int B * tick" "ap = real_of_int (B + 1) * tick"
      unfolding bp ap by (rule grid)+
    ultimately show ?thesis using low top by blast
  next
    case False
    then have lt: "B < A0" by simp
    have ap: "ap = real_of_int A0 / P" using False cmp by (simp add: ap_def ap0)
    have "real_of_int A0 / P \<le> real_of_int (N - 1) / P"
      using A0top Ppos by (intro divide_right_mono) auto
    also have "\<dots> = 1 - tick" using P Ppos by (simp add: tick diff_divide_distrib)
    finally have top: "ap \<le> 1 - tick" by (simp add: ap)
    have "bp < ap" using lt Ppos by (simp add: ap bp divide_strict_right_mono)
    moreover have "bp = real_of_int B * tick" "ap = real_of_int A0 * tick"
      unfolding bp ap by (rule grid)+
    ultimately show ?thesis using low top by blast
  qed
qed


lemma quotePrices_bounds:
  assumes d: "1 \<le> d"
  shows "Pow10 (- d) \<le> fst (quotePrices c d q fm mid) \<and>
         fst (quotePrices c d q fm mid) < snd (quotePrices c d q fm mid) \<and>
         snd (quotePrices c d q fm mid) \<le> 1 - Pow10 (- d) \<and>
         (\<exists>i j :: int. fst (quotePrices c d q fm mid) = real_of_int i * Pow10 (- d) \<and>
                       snd (quotePrices c d q fm mid) = real_of_int j * Pow10 (- d))"
proof -
  define tick where "tick = Pow10 (- d)"
  define P where "P = Pow10 d"
  define N :: int where "N = 10 ^ nat d"
  define r where "r = mid - q * Gamma c * Sigma c * Sigma c * cfg_T c"
  define ms where "ms = real_of_int (DefaultSpreadBps c) / 10000.0 * fm"
  define os where
    "os = (Gamma c * Sigma c * Sigma c * cfg_T c + (2.0 / Gamma c) * ln (1 + Gamma c / cfg_K c)) * fm"
  define b1 where "b1 = (if (r + os / 2) - (r - os / 2) < ms then r - ms / 2 else r - os / 2)"
  define a1 where "a1 = (if (r + os / 2) - (r - os / 2) < ms then r + ms / 2 else r + os / 2)"
  define a where "a = clamp a1 tick (1 - tick)"
  define b where
    "b = (if (if clamp b1 tick (1 - tick) \<ge> clamp a1 tick (1 - tick)
              then clamp a1 tick (1 - tick) - tick else clamp b1 tick (1 - tick)) < tick
          then tick
          else (if clamp b1 tick (1 - tick) \<ge> clamp a1 tick (1 - tick)
                then clamp a1 tick (1 - tick) - tick else clamp b1 tick (1 - tick)))"
  define bp where "bp = real_of_int \<lfloor>b * P\<rfloor> / P"
  define ap where
    "ap = (if bp \<ge> real_of_int \<lceil>a * P\<rceil> / P then bp + tick else real_of_int \<lceil>a * P\<rceil> / P)"
  have Q: "quotePrices c d q fm mid = (bp, ap)"
    unfolding quotePrices_def Let_def roundDownToTick_def roundUpToTick_def
      ap_def bp_def b_def a_def a1_def b1_def os_def ms_def r_def P_def tick_def
    by (rule refl)
  have PN: "P = real_of_int N" using d by (simp add: P_def N_def Pow10_int)
  have N3: "3 \<le> N" using Pow10_ge_10 [OF d] by (simp add: N_def)
  have tickP: "tick = 1 / P" by (simp add: tick_def P_def Pow10_neg)
  have Ppos: "0 < P" by (simp add: P_def Pow10_pos)
  have t0: "0 < tick" using Ppos by (simp add: tickP)
  have "2 \<le> P" using PN N3 by simp
  then have "1 / P \<le> 1 / 2" using Ppos by (simp add: field_simps)
  then have t1: "tick \<le> 1 - tick" by (simp add: tickP)
  from raw_conditioning [OF t0 t1, where bRaw = b1 and aRaw = a1]
  have raw: "tick \<le> b" "b \<le> a" "a \<le> 1 - tick" "b = a \<longrightarrow> a = tick"
    unfolding b_def a_def by blast+
  from rounding_bounds [OF PN N3 tickP raw]
  have "tick \<le> bp \<and> bp < ap \<and> ap \<le> 1 - tick \<and>
         (\<exists>i j :: int. bp = real_of_int i * tick \<and> ap = real_of_int j * tick)"
    unfolding bp_def ap_def .
  then show ?thesis by (simp add: Q tick_def)
qed


lemma quoteSizes_unfold:
  "quoteSizes c mos q mid B bp ap =
     (let s0 = max (OrderSizeUSD c / mid * (1 - 0.5 * \<bar>q\<bar>)) mos;
          cb = min s0 (B / bp);
          ca = min s0 (B / ap);
          total = cb * bp + ca * ap
      in if total > B \<and> total > 0 then (cb * (B / total), ca * (B / total)) else (cb, ca))"
  by (simp add: quoteSizes_def Let_def)

lemma quoteSizes_notional:
  assumes B: "0 < B" and p: "0 < bp" "0 < ap"
  shows "fst (quoteSizes c mos q mid B bp ap) * bp + snd (quoteSizes c mos q mid B bp ap) * ap \<le> B \<and>
         fst (quoteSizes c mos q mid B bp ap) \<le> B / bp \<and>
         snd (quoteSizes c mos q mid B bp ap) \<le> B / ap \<and>
         quoteSizes c mos q mid B bp ap =
           (let s0 = max (OrderSizeUSD c / mid * (1 - 0.5 * \<bar>q\<bar>)) mos;
                cb = min s0 (B / bp);
                ca = min s0 (B / ap);
                total = cb * bp + ca * ap
            in if total > B then (cb * (B / total), ca * (B / total)) else (cb, ca))"
proof -
  define s0 where "s0 = max (OrderSizeUSD c / mid * (1 - 0.5 * \<bar>q\<bar>)) mos"
  define cb where "cb = min s0 (B / bp)"
  define ca where "ca = min s0 (B / ap)"
  define total where "total = cb * bp + ca * ap"
  have Q: "quoteSizes c mos q mid B bp ap =
     (if total > B \<and> total > 0 then (cb * (B / total), ca * (B / total)) else (cb, ca))"
    unfolding quoteSizes_unfold total_def ca_def cb_def s0_def Let_def ..
  have Q': "quoteSizes c mos q mid B bp ap =
     (if total > B then (cb * (B / total), ca * (B / total)) else (cb, ca))"
    unfolding Q using B by auto
  have cb: "cb \<le> B / bp" and ca: "ca \<le> B / ap" by (simp_all add: cb_def ca_def)
  have main: "fst (quoteSizes c mos q mid B bp ap) * bp + snd (quoteSizes c mos q mid B bp ap) * ap \<le> B \<and>
         fst (quoteSizes c mos q mid B bp ap) \<le> B / bp \<and>
         snd (quoteSizes c mos q mid B bp ap) \<le> B / ap"
  proof (cases "total > B")
    case True
    then have tpos: "0 < total" using B by simp
    define s where "s = B / total"
    have s: "0 < s" "s \<le> 1" using True B tpos by (simp_all add: s_def)
    have "cb * s * bp + ca * s * ap = s * total" by (simp add: total_def algebra_simps)
    also have "\<dots> = B" using tpos by (simp add: s_def)
    finally have n: "cb * s * bp + ca * s * ap = B" .
    have scaled: "x * s \<le> y" if "x \<le> y" "0 \<le> y" for x y :: real
    proof (cases "0 \<le> x")
      case True
      then have "x * s \<le> x * 1" using s by (intro mult_left_mono) auto
      with that show ?thesis by simp
    next
      case False
      then have "x * s \<le> 0" using s by (simp add: mult_le_0_iff)
      with that show ?thesis by simp
    qed
    have "0 \<le> B / bp" "0 \<le> B / ap" using B p by simp_all
    then have "cb * s \<le> B / bp" "ca * s \<le> B / ap" using cb ca scaled by blast+
    with n True show ?thesis by (simp add: Q' s_def)
  next
    case False
    then show ?thesis using cb ca by (simp add: Q' total_def)
  qed
  have shape: "quoteSizes c mos q mid B bp ap =
           (let s0 = max (OrderSizeUSD c / mid * (1 - 0.5 * \<bar>q\<bar>)) mos;
                cb = min s0 (B / bp);
                ca = min s0 (B / ap);
                total = cb * bp + ca * ap
            in if total > B then (cb * (B / total), ca * (B / total)) else (cb, ca))"
    unfolding Q' total_def ca_def cb_def s0_def Let_def ..
  from main shape show ?thesis by blast
qed

lemma computeQuotes_Bid:
  "Bid (fst (computeQuotes now1 now2 now3 now4 now5 now6 m mid B)) =
     (let pr = quotedPrices now1 now2 now3 now4 m mid;
          sz = quoteSizes (makerCfg m) (MinOrderSize (marketInfo m)) (NetDelta (inventory m))
                 mid B (fst pr) (snd pr)
      in if fst sz \<ge> MinOrderSize (marketInfo m) \<and> fst pr > 0 \<and> fst pr < 1
         then Some \<lparr>ord_TokenID = YesTokenID (marketInfo m), ord_Price = fst pr,
                     ord_Size = fst sz, ord_Side = BUY, ord_OrderType = OrderTypeGTC,
                     ord_TickSize = TickSize (marketInfo m), Expiration = 0, FeeRateBps = 0\<rparr>
         else None)"
  by (simp add: computeQuotes_def quotedPrices_def Let_def split_beta)

lemma computeQuotes_Ask:
  "Ask (fst (computeQuotes now1 now2 now3 now4 now5 now6 m mid B)) =
     (let pr = quotedPrices now1 now2 now3 now4 m mid;
          sz = quoteSizes (makerCfg m) (MinOrderSize (marketInfo m)) (NetDelta (inventory m))
                 mid B (fst pr) (snd pr)
      in if snd sz \<ge> MinOrderSize (marketInfo m) \<and> snd pr > 0 \<and> snd pr < 1
         then Some \<lparr>ord_TokenID = YesTokenID (marketInfo m), ord_Price = snd pr,
                     ord_Size = snd sz, ord_Side = SELL, ord_OrderType = OrderTypeGTC,
                     ord_TickSize = TickSize (marketInfo m), Expiration = 0, FeeRateBps = 0\<rparr>
         else None)"
  by (simp add: computeQuotes_def quotedPrices_def Let_def split_beta)

lemma computeQuotes_Bid_Some:
  assumes "Bid (fst (computeQuotes now1 now2 now3 now4 now5 now6 m mid B)) = Some b"
  defines "pr \<equiv> quotedPrices now1 now2 now3 now4 m mid"
  shows "ord_Price b = fst pr \<and>
         ord_Size b = fst (quoteSizes (makerCfg m) (MinOrderSize (marketInfo m))
                             (NetDelta (inventory m)) mid B (fst pr) (snd pr)) \<and>
         MinOrderSize (marketInfo m) \<le> ord_Size b \<and> 0 < fst pr \<and> fst pr < 1"
  using assms(1) unfolding computeQuotes_Bid Let_def pr_def
  by (auto split: if_splits)

lemma computeQuotes_Ask_Some:
  assumes "Ask (fst (computeQuotes now1 now2 now3 now4 now5 now6 m mid B)) = Some a"
  defines "pr \<equiv> quotedPrices now1 now2 now3 now4 m mid"
  shows "ord_Price a = snd pr \<and>
         ord_Size a = snd (quoteSizes (makerCfg m) (MinOrderSize (marketInfo m))
                             (NetDelta (inventory m)) mid B (fst pr) (snd pr)) \<and>
         MinOrderSize (marketInfo m) \<le> ord_Size a \<and> 0 < snd pr \<and> snd pr < 1"
  using assms(1) unfolding computeQuotes_Ask Let_def pr_def
  by (auto split: if_splits)

lemmas maker_eval = testMaker_def setupMaker_def NewMaker_def NewInventory_def
  testStrategyConfig_def testMarketInfo_def NetDelta_def zeroPosition_def Let_def

lemma tick_001: "Pow10 (- Decimals Tick001) = 1 / 100"
  by (simp add: Decimals_def Tick001_def Tick01_def Pow10_neg Pow10_int)

lemma testMaker_prices:
  "1 / 100 \<le> fst (quotedPrices now1 now2 now3 now4 testMaker mid) \<and>
   fst (quotedPrices now1 now2 now3 now4 testMaker mid)
     < snd (quotedPrices now1 now2 now3 now4 testMaker mid) \<and>
   snd (quotedPrices now1 now2 now3 now4 testMaker mid) \<le> 99 / 100"
proof -
  have d: "1 \<le> Decimals Tick001" using Decimals_range by blast
  have t: "TickSize (marketInfo testMaker) = Tick001" by (simp add: maker_eval)
  from quotePrices_bounds [OF d] show ?thesis
    unfolding quotedPrices_def t tick_001 by (simp add: conj_ac)
qed

lemma testMaker_sizes_1000:
  assumes "0 < bp" "bp < 1" "0 < ap" "ap < 1"
  shows "quoteSizes (makerCfg testMaker) (MinOrderSize (marketInfo testMaker))
           (NetDelta (inventory testMaker)) (1 / 2) 1000 bp ap = (100, 100)"
proof -
  have "100 * bp \<le> 1000" "100 * ap \<le> 1000" using assms by simp_all
  then have c: "min 100 (1000 / bp) = 100" "min 100 (1000 / ap) = 100"
    using assms by (simp_all add: min_def field_simps)
  have "100 * bp + 100 * ap \<le> 1000" using assms by simp
  then show ?thesis
    by (simp add: quoteSizes_unfold maker_eval c)
qed

lemma testMaker_sizes_25:
  assumes "0 < bp" "bp < 1" "0 < ap" "ap < 1"
  shows "1 \<le> fst (quoteSizes (makerCfg testMaker) (MinOrderSize (marketInfo testMaker))
                    (NetDelta (inventory testMaker)) (1 / 2) 25 bp ap) \<and>
         1 \<le> snd (quoteSizes (makerCfg testMaker) (MinOrderSize (marketInfo testMaker))
                    (NetDelta (inventory testMaker)) (1 / 2) 25 bp ap)"
proof -
  define cb where "cb = min 100 (25 / bp)"
  define ca where "ca = min 100 (25 / ap)"
  define total where "total = cb * bp + ca * ap"
  have Q: "quoteSizes (makerCfg testMaker) (MinOrderSize (marketInfo testMaker))
             (NetDelta (inventory testMaker)) (1 / 2) 25 bp ap =
           (if total > 25 \<and> total > 0 then (cb * (25 / total), ca * (25 / total)) else (cb, ca))"
    by (simp add: quoteSizes_unfold maker_eval cb_def ca_def total_def)
  have "25 \<le> 25 / bp" "25 \<le> 25 / ap" using assms by (simp_all add: field_simps)
  then have lo: "25 \<le> cb" "25 \<le> ca" by (simp_all add: cb_def ca_def)
  have "cb \<le> 25 / bp" "ca \<le> 25 / ap" by (simp_all add: cb_def ca_def)
  then have "cb * bp \<le> 25" "ca * ap \<le> 25" using assms by (simp_all add: field_simps)
  then have top: "total \<le> 50" by (simp add: total_def)
  show ?thesis
  proof (cases "total > 25")
    case True
    then have Q1: "quoteSizes (makerCfg testMaker) (MinOrderSize (marketInfo testMaker))
             (NetDelta (inventory testMaker)) (1 / 2) 25 bp ap =
           (cb * (25 / total), ca * (25 / total))"
      unfolding Q by simp
    from True have "1 / 2 \<le> 25 / total" using top by (simp add: field_simps)
    then have "25 * (1 / 2) \<le> cb * (25 / total)" "25 * (1 / 2) \<le> ca * (25 / total)"
      using lo by (intro mult_mono; simp)+
    then have "1 \<le> cb * (25 / total)" "1 \<le> ca * (25 / total)" by linarith+
    then show ?thesis unfolding Q1 fst_conv snd_conv by (rule conjI)
  next
    case False
    then have Q2: "quoteSizes (makerCfg testMaker) (MinOrderSize (marketInfo testMaker))
             (NetDelta (inventory testMaker)) (1 / 2) 25 bp ap = (cb, ca)"
      unfolding Q by simp
    have "1 \<le> cb" "1 \<le> ca" using lo by linarith+
    then show ?thesis unfolding Q2 fst_conv snd_conv by (rule conjI)
  qed
qed

text \<open>
  C1. For every mid in \<open>(0, 1)\<close>, every skew in \<open>[-1, 1]\<close>, every tick size (the
  tick is \<open>10\<close> to the power \<open>- Decimals\<close>) and positive \<open>gamma\<close>, \<open>sigma\<close>, \<open>k\<close>, \<open>T\<close>:
  when \<open>computeQuotes\<close> emits a bid and an ask, their prices satisfy
  \<open>tick \<le> bid < ask \<le> 1 - tick\<close> and both are integer multiples of the tick.
\<close>

theorem computeQuotes_prices:
  assumes "0 < mid" "mid < 1"
      and "- 1 \<le> NetDelta (inventory m)" "NetDelta (inventory m) \<le> 1"
      and "0 < Gamma (makerCfg m)" "0 < Sigma (makerCfg m)"
      and "0 < cfg_K (makerCfg m)" "0 < cfg_T (makerCfg m)"
      and bid: "Bid (fst (computeQuotes now1 now2 now3 now4 now5 now6 m mid budget)) = Some b"
      and ask: "Ask (fst (computeQuotes now1 now2 now3 now4 now5 now6 m mid budget)) = Some a"
  shows "Pow10 (- Decimals (TickSize (marketInfo m))) \<le> ord_Price b \<and>
         ord_Price b < ord_Price a \<and>
         ord_Price a \<le> 1 - Pow10 (- Decimals (TickSize (marketInfo m))) \<and>
         (\<exists>i j :: int.
            ord_Price b = real_of_int i * Pow10 (- Decimals (TickSize (marketInfo m))) \<and>
            ord_Price a = real_of_int j * Pow10 (- Decimals (TickSize (marketInfo m))))"
proof -
  define pr where "pr = quotedPrices now1 now2 now3 now4 m mid"
  have b: "ord_Price b = fst pr"
    using bid unfolding computeQuotes_Bid Let_def pr_def by (auto split: if_splits)
  have a: "ord_Price a = snd pr"
    using ask unfolding computeQuotes_Ask Let_def pr_def by (auto split: if_splits)
  have "1 \<le> Decimals (TickSize (marketInfo m))" using Decimals_range by blast
  from quotePrices_bounds [OF this] show ?thesis
    unfolding a b pr_def quotedPrices_def .
qed

theorem computeQuotes_prices_witness:
  "0 < (1 / 2 :: real) \<and> (1 / 2 :: real) < 1 \<and>
   - 1 \<le> NetDelta (inventory testMaker) \<and> NetDelta (inventory testMaker) \<le> 1 \<and>
   0 < Gamma (makerCfg testMaker) \<and> 0 < Sigma (makerCfg testMaker) \<and>
   0 < cfg_K (makerCfg testMaker) \<and> 0 < cfg_T (makerCfg testMaker) \<and>
   (\<exists>b a. Bid (fst (computeQuotes 1000000000000 1000000000000 1000000000000 1000000000000
                      1000000000000 1000000000000 testMaker (1 / 2) 1000)) = Some b \<and>
          Ask (fst (computeQuotes 1000000000000 1000000000000 1000000000000 1000000000000
                      1000000000000 1000000000000 testMaker (1 / 2) 1000)) = Some a \<and>
          1 / 100 \<le> ord_Price b \<and> ord_Price b < ord_Price a \<and> ord_Price a \<le> 99 / 100 \<and>
          ord_Size b = 100 \<and> ord_Size a = 100)"
proof -
  let ?t = "1000000000000 :: int"
  define pr where "pr = quotedPrices ?t ?t ?t ?t testMaker (1 / 2)"
  have p: "1 / 100 \<le> fst pr" "fst pr < snd pr" "snd pr \<le> 99 / 100"
    using testMaker_prices [of ?t ?t ?t ?t "1 / 2"] unfolding pr_def by blast+
  then have r: "0 < fst pr" "fst pr < 1" "0 < snd pr" "snd pr < 1" by simp_all
  note sz = testMaker_sizes_1000 [OF r]
  have mos: "MinOrderSize (marketInfo testMaker) = 1" by (simp add: maker_eval)
  obtain b where b: "Bid (fst (computeQuotes ?t ?t ?t ?t ?t ?t testMaker (1 / 2) 1000)) = Some b"
    unfolding computeQuotes_Bid Let_def pr_def [symmetric] sz using r mos by simp
  obtain a where a: "Ask (fst (computeQuotes ?t ?t ?t ?t ?t ?t testMaker (1 / 2) 1000)) = Some a"
    unfolding computeQuotes_Ask Let_def pr_def [symmetric] sz using r mos by simp
  have h: "0 < (1 / 2 :: real)" "(1 / 2 :: real) < 1"
    "- 1 \<le> NetDelta (inventory testMaker)" "NetDelta (inventory testMaker) \<le> 1"
    "0 < Gamma (makerCfg testMaker)" "0 < Sigma (makerCfg testMaker)"
    "0 < cfg_K (makerCfg testMaker)" "0 < cfg_T (makerCfg testMaker)"
    by (simp_all add: maker_eval)
  have t: "TickSize (marketInfo testMaker) = Tick001" by (simp add: maker_eval)
  from computeQuotes_prices [OF h b a]
  have c: "1 / 100 \<le> ord_Price b" "ord_Price b < ord_Price a" "ord_Price a \<le> 99 / 100"
    unfolding t tick_001 by simp_all
  from computeQuotes_Bid_Some [OF b] have sb: "ord_Size b = 100"
    unfolding pr_def [symmetric] sz by simp
  from computeQuotes_Ask_Some [OF a] have sa: "ord_Size a = 100"
    unfolding pr_def [symmetric] sz by simp
  from h a b c sb sa show ?thesis by blast
qed

text \<open>
  C2. For every mid in \<open>(0, 1)\<close>, every remaining budget \<open>> 0\<close> and every skew in
  \<open>[-1, 1]\<close>: when \<open>computeQuotes\<close> emits both sides, the combined notional
  \<open>bid_price * bid_size + ask_price * ask_size\<close> is at most the remaining budget. Each
  size is at most \<open>budget / price\<close>; the sizes are the base size capped by
  \<open>budget / price\<close> and, when the combined notional of the capped sizes exceeds the
  budget, both multiplied by \<open>budget / total\<close>.
\<close>

theorem computeQuotes_notional:
  assumes "0 < mid" "mid < 1" and B: "0 < budget"
      and "- 1 \<le> NetDelta (inventory m)" "NetDelta (inventory m) \<le> 1"
      and bid: "Bid (fst (computeQuotes now1 now2 now3 now4 now5 now6 m mid budget)) = Some b"
      and ask: "Ask (fst (computeQuotes now1 now2 now3 now4 now5 now6 m mid budget)) = Some a"
  shows "ord_Price b * ord_Size b + ord_Price a * ord_Size a \<le> budget \<and>
         ord_Size b \<le> budget / ord_Price b \<and> ord_Size a \<le> budget / ord_Price a \<and>
         (ord_Size b, ord_Size a) =
           (let s0 = max (OrderSizeUSD (makerCfg m) / mid *
                            (1 - 0.5 * \<bar>NetDelta (inventory m)\<bar>))
                         (MinOrderSize (marketInfo m));
                cb = min s0 (budget / ord_Price b);
                ca = min s0 (budget / ord_Price a);
                total = cb * ord_Price b + ca * ord_Price a
            in if total > budget then (cb * (budget / total), ca * (budget / total))
               else (cb, ca))"
proof -
  define pr where "pr = quotedPrices now1 now2 now3 now4 m mid"
  define sz where "sz = quoteSizes (makerCfg m) (MinOrderSize (marketInfo m))
     (NetDelta (inventory m)) mid budget (ord_Price b) (ord_Price a)"
  from computeQuotes_Bid_Some [OF bid]
  have pb: "ord_Price b = fst pr" and sb0: "ord_Size b = fst (quoteSizes (makerCfg m)
       (MinOrderSize (marketInfo m)) (NetDelta (inventory m)) mid budget (fst pr) (snd pr))"
    and bpos: "0 < fst pr"
    unfolding pr_def by blast+
  from computeQuotes_Ask_Some [OF ask]
  have pa: "ord_Price a = snd pr" and sa0: "ord_Size a = snd (quoteSizes (makerCfg m)
       (MinOrderSize (marketInfo m)) (NetDelta (inventory m)) mid budget (fst pr) (snd pr))"
    and apos: "0 < snd pr"
    unfolding pr_def by blast+
  have sb: "ord_Size b = fst sz" and sa: "ord_Size a = snd sz"
    unfolding sz_def pb pa by (rule sb0, rule sa0)
  have pos: "0 < ord_Price b" "0 < ord_Price a" using bpos apos pb pa by simp_all
  note N = quoteSizes_notional [OF B pos, of "makerCfg m" "MinOrderSize (marketInfo m)"
      "NetDelta (inventory m)" mid, folded sz_def]
  from N have "fst sz * ord_Price b + snd sz * ord_Price a \<le> budget" by (rule conjunct1)
  then have c1: "ord_Price b * ord_Size b + ord_Price a * ord_Size a \<le> budget"
    unfolding sb sa by (simp only: mult.commute)
  from N have c2: "ord_Size b \<le> budget / ord_Price b" unfolding sb by blast
  from N have c3: "ord_Size a \<le> budget / ord_Price a" unfolding sa by blast
  have "(ord_Size b, ord_Size a) = sz" unfolding sb sa by simp
  also from N have "sz = (let s0 = max (OrderSizeUSD (makerCfg m) / mid *
                            (1 - 0.5 * \<bar>NetDelta (inventory m)\<bar>))
                         (MinOrderSize (marketInfo m));
                cb = min s0 (budget / ord_Price b);
                ca = min s0 (budget / ord_Price a);
                total = cb * ord_Price b + ca * ord_Price a
            in if total > budget then (cb * (budget / total), ca * (budget / total))
               else (cb, ca))"
    by blast
  finally show ?thesis using c1 c2 c3 by blast
qed

theorem computeQuotes_notional_witness:
  "0 < (1 / 2 :: real) \<and> (1 / 2 :: real) < 1 \<and> 0 < (25 :: real) \<and>
   - 1 \<le> NetDelta (inventory testMaker) \<and> NetDelta (inventory testMaker) \<le> 1 \<and>
   (\<exists>b a. Bid (fst (computeQuotes 1000000000000 1000000000000 1000000000000 1000000000000
                      1000000000000 1000000000000 testMaker (1 / 2) 25)) = Some b \<and>
          Ask (fst (computeQuotes 1000000000000 1000000000000 1000000000000 1000000000000
                      1000000000000 1000000000000 testMaker (1 / 2) 25)) = Some a \<and>
          ord_Price b * ord_Size b + ord_Price a * ord_Size a \<le> 25 \<and>
          ord_Size b \<le> 25 / ord_Price b \<and> ord_Size a \<le> 25 / ord_Price a)"
proof -
  let ?t = "1000000000000 :: int"
  define pr where "pr = quotedPrices ?t ?t ?t ?t testMaker (1 / 2)"
  have p: "1 / 100 \<le> fst pr" "fst pr < snd pr" "snd pr \<le> 99 / 100"
    using testMaker_prices [of ?t ?t ?t ?t "1 / 2"] unfolding pr_def by blast+
  then have r: "0 < fst pr" "fst pr < 1" "0 < snd pr" "snd pr < 1" by simp_all
  have mos: "MinOrderSize (marketInfo testMaker) = 1" by (simp add: maker_eval)
  from testMaker_sizes_25 [OF r]
  have sz: "MinOrderSize (marketInfo testMaker)
              \<le> fst (quoteSizes (makerCfg testMaker) (MinOrderSize (marketInfo testMaker))
                    (NetDelta (inventory testMaker)) (1 / 2) 25 (fst pr) (snd pr))"
    "MinOrderSize (marketInfo testMaker)
              \<le> snd (quoteSizes (makerCfg testMaker) (MinOrderSize (marketInfo testMaker))
                    (NetDelta (inventory testMaker)) (1 / 2) 25 (fst pr) (snd pr))"
    unfolding mos by blast+
  obtain b where b: "Bid (fst (computeQuotes ?t ?t ?t ?t ?t ?t testMaker (1 / 2) 25)) = Some b"
    unfolding computeQuotes_Bid Let_def pr_def [symmetric] using r sz(1) by simp
  obtain a where a: "Ask (fst (computeQuotes ?t ?t ?t ?t ?t ?t testMaker (1 / 2) 25)) = Some a"
    unfolding computeQuotes_Ask Let_def pr_def [symmetric] using r sz(2) by simp
  have h: "0 < (1 / 2 :: real)" "(1 / 2 :: real) < 1" "0 < (25 :: real)"
    "- 1 \<le> NetDelta (inventory testMaker)" "NetDelta (inventory testMaker) \<le> 1"
    by (simp_all add: maker_eval)
  from computeQuotes_notional [OF h b a]
  have c: "ord_Price b * ord_Size b + ord_Price a * ord_Size a \<le> 25"
    "ord_Size b \<le> 25 / ord_Price b" "ord_Size a \<le> 25 / ord_Price a"
    by blast+
  from h a b c show ?thesis by blast
qed

end
